theory Spec2Isabelle
  imports Main "HOL-Library.Word"
begin

section \<open>The dataway endpoint of io/dataway/endpoint.go\<close>

text \<open>
  A shallow embedding of \<^verbatim>\<open>newEndpoint\<close>, \<^verbatim>\<open>writePoints\<close>, \<^verbatim>\<open>writeBody\<close>,
  \<^verbatim>\<open>doCache\<close>, \<^verbatim>\<open>writePointData\<close> and \<^verbatim>\<open>sendReq\<close>. Go strings and byte slices are
  byte sequences: both are \<open>string\<close> here. Everything the functions do to the outside
  (requests passed to \<^verbatim>\<open>sendReq\<close>, records handed to the failure cache, calls of the
  dial-testing callback, log lines, the process-wide \<^verbatim>\<open>metrics.BeyondUsage\<close>) is a field
  of the record \<open>world\<close>, passed in and returned. Everything they read from outside the file
  (constants of package \<^verbatim>\<open>datakit\<close>, the segmenter \<^verbatim>\<open>buildBody\<close>, the answers of the network,
  the clock, the protobuf encoder, Go's URL parser) is a field of the record \<open>env\<close>, so every
  theorem holds for all of them. The Prometheus counters updated in deferred functions are
  write-only for this file and are left out.
\<close>

subsection \<open>Data\<close>

type_synonym bytes = string

text \<open>A point is opaque here: only \<^verbatim>\<open>buildBody\<close> reads it.\<close>

type_synonym point = string

text \<open>
  Error values. \<open>ErrWritePoints4XX\<close> is the package's sentinel \<^verbatim>\<open>errWritePoints4XX\<close>;
  \<^verbatim>\<open>errors.Is(err, errWritePoints4XX)\<close> is equality with it, since no other error of
  this file wraps the sentinel. The other constructors carry the message of the library
  error they stand for.
\<close>

datatype error =
    ErrWritePoints4XX
  | ErrParseRequestURI string
  | ErrInvalidURL string
  | ErrNewRequest string
  | ErrSendReq string
  | ErrReadAll string
  | ErrDatawayInternal
  | ErrBuildBody string
  | ErrMarshal string
  | ErrPut string
  | ErrNotSupportedScheme string

text \<open>The fields of \<^verbatim>\<open>url.URL\<close> that \<^verbatim>\<open>newEndpoint\<close> reads.\<close>

record URL =
  Scheme :: string
  Host :: string
  RawQuery :: string

text \<open>
  The structs \<^verbatim>\<open>body\<close>, \<^verbatim>\<open>writer\<close> and \<^verbatim>\<open>CacheData\<close> are declared outside the files at
  hand. Their fields here are the ones \<^verbatim>\<open>endpoint.go\<close> reads and writes (\<^verbatim>\<open>b.buf\<close>,
  \<^verbatim>\<open>b.npts\<close>, \<^verbatim>\<open>b.payload\<close>, \<^verbatim>\<open>b.gzon\<close>; \<^verbatim>\<open>w.category\<close>, \<^verbatim>\<open>w.pts\<close>, \<^verbatim>\<open>w.gzip\<close>,
  \<^verbatim>\<open>w.fc\<close>, \<^verbatim>\<open>w.cacheAll\<close>, \<^verbatim>\<open>w.dynamicURL\<close>, \<^verbatim>\<open>w.isSinker\<close>; the three fields of the
  literal in \<^verbatim>\<open>doCache\<close>, whose \<^verbatim>\<open>int32\<close> conversions give their width).
\<close>

record body =
  buf :: bytes
  npts :: int
  payload :: int
  gzon :: bool

text \<open>
  The failure cache behind \<^verbatim>\<open>w.fc\<close>: \<^verbatim>\<open>Put\<close> answers with an error or nil; its answer may
  depend on how many records were put before.
\<close>

type_synonym failcache = "nat \<Rightarrow> bytes \<Rightarrow> string option"

record writer =
  category :: string
  pts :: "point list"
  gzip :: bool
  fc :: "failcache option"
  cacheAll :: bool
  dynamicURL :: string
  isSinker :: bool

record CacheData =
  Category :: "32 word"
  PayloadType :: "32 word"
  Payload :: bytes

record request =
  Method :: string
  ReqURL :: string
  Header :: "(string \<times> string) list"
  ReqBody :: bytes

text \<open>
  An HTTP response: the status code (never negative: the client parses it from three
  digits) and what \<^verbatim>\<open>ioutil.ReadAll(resp.Body)\<close> gives, an error or the bytes.
\<close>

record response =
  StatusCode :: nat
  Body :: "string + bytes"

record httpClient =
  DialTimeout :: int
  MaxIdleConnsPerHost :: int
  DialContext :: bool
  ProxyURL :: "URL option"

record endPoint =
  token :: string
  host :: string
  scheme :: string
  categoryURL :: "string \<rightharpoonup> string"
  httpCli :: "httpClient option"
  proxy :: string
  apis :: "string list"
  httpTimeout :: int
  maxHTTPIdleConnectionPerHost :: int
  httpTrace :: bool

datatype level = Debug | Info | Warn | Error

text \<open>One constructor for each log call of the write path, with the values it prints.\<close>

datatype logline =
    SendFailed nat string bool error
  | DoCacheFailed int string error
  | DoCacheOk int string
  | Dropped int string
  | TryDynamicURL string
  | NewRequestFailed string
  | SendReqFailed string string string
  | ReadAllFailed string
  | Posting nat string
  | PostOk nat string bool
  | ClearBeyondUsage
  | Post4XX nat string nat bytes
  | SetBeyondUsage
  | Post5XX nat string nat bytes

fun levelOf :: "logline \<Rightarrow> level" where
  "levelOf (SendFailed n c g e) = Warn"
| "levelOf (DoCacheFailed n c e) = Error"
| "levelOf (DoCacheOk n c) = Info"
| "levelOf (Dropped n c) = Warn"
| "levelOf (TryDynamicURL u) = Debug"
| "levelOf (NewRequestFailed e) = Error"
| "levelOf (SendReqFailed u p e) = Error"
| "levelOf (ReadAllFailed e) = Error"
| "levelOf (Posting n u) = Debug"
| "levelOf (PostOk n u g) = Debug"
| "levelOf ClearBeyondUsage = Info"
| "levelOf (Post4XX n u c b) = Error"
| "levelOf SetBeyondUsage = Info"
| "levelOf (Post5XX n u c b) = Error"

record world =
  BeyondUsage :: "64 word"
  reqs :: "request list"
  puts :: "bytes list"
  dtinfo :: "(string \<times> bool) list"
  logs :: "logline list"

text \<open>
  What the file reads from outside. The five category constants of package \<^verbatim>\<open>datakit\<close>,
  \<^verbatim>\<open>MaxKodoBody\<close>, \<^verbatim>\<open>ExtraHeaders\<close> and \<^verbatim>\<open>buildBody\<close> are declared elsewhere in the
  repository; \<^verbatim>\<open>url.ParseRequestURI\<close>, \<^verbatim>\<open>http.NewRequest\<close> (which fails when the URL does
  not parse), \<^verbatim>\<open>point.CatURL\<close>, \<^verbatim>\<open>pb.Marshal\<close>, \<^verbatim>\<open>time.Now().Unix()\<close> and the retrying
  HTTP client are libraries. \<open>httpDo\<close> and \<open>unixNow\<close> are indexed by the number of requests
  sent before, so that the network and the clock may answer differently each time.
\<close>

record env =
  Metric :: string
  MetricDeprecated :: string
  Object :: string
  CustomObject :: string
  DynamicDatawayCategory :: string
  MaxKodoBody :: nat
  ExtraHeaders :: "(string \<times> string) list"
  buildBody :: "point list \<Rightarrow> nat \<Rightarrow> error + body list"
  ParseRequestURI :: "string \<Rightarrow> string + URL"
  NewRequest :: "string \<Rightarrow> string option"
  httpDo :: "nat \<Rightarrow> request \<Rightarrow> string + response"
  unixNow :: "nat \<Rightarrow> 64 word"
  CatURL :: "string \<Rightarrow> 32 word"
  pbMarshal :: "CacheData \<Rightarrow> string + bytes"
  dnsCacheDialContext :: bool

subsection \<open>Strings\<close>

fun HasPrefix :: "string \<Rightarrow> string \<Rightarrow> bool" where
  "HasPrefix s [] = True"
| "HasPrefix [] (p # ps) = False"
| "HasPrefix (c # cs) (p # ps) = (c = p \<and> HasPrefix cs ps)"

text \<open>\<^verbatim>\<open>strings.Contains(s, substr)\<close>.\<close>

fun Contains :: "string \<Rightarrow> string \<Rightarrow> bool" where
  "Contains [] sub = HasPrefix [] sub"
| "Contains (c # cs) sub = (HasPrefix (c # cs) sub \<or> Contains cs sub)"

subsection \<open>The write path\<close>

definition logf :: "logline \<Rightarrow> world \<Rightarrow> world" where
  "logf l s = s\<lparr>logs := logs s @ [l]\<rparr>"

text \<open>The dial-testing callback \<^verbatim>\<open>updateDTFailInfo(url, ok)\<close>: the call is recorded.\<close>

definition updateDTFailInfo :: "string \<Rightarrow> bool \<Rightarrow> world \<Rightarrow> world" where
  "updateDTFailInfo url ok s = s\<lparr>dtinfo := dtinfo s @ [(url, ok)]\<rparr>"

text \<open>
  \<^verbatim>\<open>req.Header.Set(k, v)\<close>: replaces the value of a key, or adds the key. Go writes the key
  in its canonical form first (\<^verbatim>\<open>Content-Encoding\<close>); the keys of \<^verbatim>\<open>ExtraHeaders\<close> are taken
  as canonical and compared as written.
\<close>

fun headerSet :: "string \<Rightarrow> string \<Rightarrow> (string \<times> string) list \<Rightarrow> (string \<times> string) list" where
  "headerSet k v [] = [(k, v)]"
| "headerSet k v ((k', v') # h) = (if k' = k then (k, v) # h else (k', v') # headerSet k v h)"

text \<open>
  \<^verbatim>\<open>sendReq\<close>: the request is recorded, and \<open>httpDo\<close> stands for \<^verbatim>\<open>rhttp.FromRequest\<close>
  and the retrying client together, which answer with an error or a response. The trace and
  the API counters do not change what is returned. The lines \<^verbatim>\<open>sendReq\<close> itself logs (the
  debug line at 443, the trace line) are not in \<open>logs\<close>, which holds the lines of
  \<^verbatim>\<open>writeBody\<close> and \<^verbatim>\<open>writePointData\<close>. The endpoint has a client (\<^verbatim>\<open>ep.httpCli\<close> is not nil),
  as every endpoint \<^verbatim>\<open>newEndpoint\<close> returns has; nothing on the write path reads its fields.
\<close>

definition sendReq :: "env \<Rightarrow> endPoint \<Rightarrow> request \<Rightarrow> world \<Rightarrow> (string + response) \<times> world" where
  "sendReq env ep req s = (httpDo env (length (reqs s)) req, s\<lparr>reqs := reqs s @ [req]\<rparr>)"

text \<open>The request \<^verbatim>\<open>writePointData\<close> builds for a body and a URL (lines 284 to 296).\<close>

definition buildRequest :: "env \<Rightarrow> writer \<Rightarrow> body \<Rightarrow> string \<Rightarrow> request" where
  "buildRequest env w b requrl =
     \<lparr>Method = ''POST'', ReqURL = requrl,
      Header = fold (\<lambda>(k, v) h. headerSet k v h) (ExtraHeaders env)
                 (if gzip w then [(''Content-Encoding'', ''gzip'')] else []),
      ReqBody = buf b\<rparr>"

text \<open>
  The \<^verbatim>\<open>switch resp.StatusCode / 100\<close> of \<^verbatim>\<open>writePointData\<close> (lines 326 to 371), reached
  once the body of the response has been read. \<^verbatim>\<open>atomic.LoadInt64(..) > 0\<close> is a signed
  comparison, \<^verbatim>\<open>atomic.AddInt64\<close> a wrapping addition on 64 bits.
\<close>

definition classify :: "env \<Rightarrow> writer \<Rightarrow> body \<Rightarrow> string \<Rightarrow> nat \<Rightarrow> bytes \<Rightarrow> world \<Rightarrow> error option \<times> world" where
  "classify env w b requrl code strBody s0 =
     (let s = logf (Posting (length (buf b)) requrl) s0 in
      if code div 100 = 2 then
        (let s1 = logf (PostOk (length (buf b)) requrl (gzip w)) s in
         if Contains requrl ''/v1/write/'' \<and> 0 < sint (BeyondUsage s1)
         then (None, (logf ClearBeyondUsage s1)\<lparr>BeyondUsage := 0\<rparr>)
         else (None, s1))
      else if code div 100 = 4 then
        (let s1 = logf (Post4XX (length (buf b)) requrl code strBody) s in
         if code = 403 then
           (if Contains strBody ''beyondDataUsage''
            then (Some ErrWritePoints4XX,
                  logf SetBeyondUsage
                    (s1\<lparr>BeyondUsage := BeyondUsage s1 + unixNow env (length (reqs s1))\<rparr>))
            else (Some ErrWritePoints4XX, s1))
         else (Some ErrWritePoints4XX, s1))
      else (Some ErrDatawayInternal, logf (Post5XX (length (buf b)) requrl code strBody) s))"

text \<open>
  \<^verbatim>\<open>writePointData\<close> from \<^verbatim>\<open>http.NewRequest\<close> on (lines 284 to 371), for the URL chosen
  before.
\<close>

definition post :: "env \<Rightarrow> endPoint \<Rightarrow> body \<Rightarrow> writer \<Rightarrow> string \<Rightarrow> world \<Rightarrow> error option \<times> world" where
  "post env ep b w requrl s =
     (case NewRequest env requrl of
        Some e \<Rightarrow> (Some (ErrNewRequest e), logf (NewRequestFailed e) s)
      | None \<Rightarrow>
          (case sendReq env ep (buildRequest env w b requrl) s of
             (Inl e, s1) \<Rightarrow> (Some (ErrSendReq e), logf (SendReqFailed requrl (proxy ep) e) s1)
           | (Inr resp, s1) \<Rightarrow>
               (case Body resp of
                  Inl e \<Rightarrow> (Some (ErrReadAll e), logf (ReadAllFailed e) s1)
                | Inr rbody \<Rightarrow> classify env w b requrl (StatusCode resp) rbody s1)))"

text \<open>
  \<^verbatim>\<open>writePointData\<close>. The local \<^verbatim>\<open>httpCode\<close> is declared (zero) and never assigned in the
  source; the deferred callback of the dynamic URL reads it when the function returns,
  whatever it returns.
\<close>

definition writePointData :: "env \<Rightarrow> endPoint \<Rightarrow> body \<Rightarrow> writer \<Rightarrow> world \<Rightarrow> error option \<times> world" where
  "writePointData env ep b w s =
     (let httpCode = (0 :: int) in
      case categoryURL ep (category w) of
        Some requrl \<Rightarrow> post env ep b w requrl s
      | None \<Rightarrow>
          if dynamicURL w \<noteq> [] then
            (case ParseRequestURI env (dynamicURL w) of
               Inl e \<Rightarrow> (Some (ErrParseRequestURI e), s)
             | Inr u \<Rightarrow>
                 (let requrl = dynamicURL w;
                      r = post env ep b w requrl (logf (TryDynamicURL (dynamicURL w)) s)
                  in (fst r, updateDTFailInfo requrl (httpCode div 100 = 2) (snd r))))
          else (Some (ErrInvalidURL (dynamicURL w)), s))"

text \<open>
  \<^verbatim>\<open>doCache\<close>. The source reads the handle from \<^verbatim>\<open>w.fc\<close>; its only caller has checked
  \<^verbatim>\<open>w.fc == nil\<close> before, so the handle is an argument here.
\<close>

definition doCache :: "env \<Rightarrow> failcache \<Rightarrow> writer \<Rightarrow> body \<Rightarrow> world \<Rightarrow> error option \<times> world" where
  "doCache env put w b s =
     (case pbMarshal env \<lparr>Category = CatURL env (category w),
                          PayloadType = word_of_int (payload b),
                          Payload = buf b\<rparr> of
        Inl e \<Rightarrow> (Some (ErrMarshal e), s)
      | Inr cachedata \<Rightarrow>
          (map_option ErrPut (put (length (puts s)) cachedata),
           s\<lparr>puts := puts s @ [cachedata]\<rparr>))"

text \<open>The categories of the \<^verbatim>\<open>case\<close> at lines 191 to 195.\<close>

definition notCached :: "env \<Rightarrow> string \<Rightarrow> bool" where
  "notCached env c =
     (c = Metric env \<or> c = MetricDeprecated env \<or> c = Object env
      \<or> c = CustomObject env \<or> c = DynamicDatawayCategory env)"

text \<open>\<^verbatim>\<open>writeBody\<close>. It writes \<^verbatim>\<open>w.gzip\<close>, so the writer is returned too.\<close>

definition writeBody :: "env \<Rightarrow> endPoint \<Rightarrow> writer \<Rightarrow> body \<Rightarrow> world \<Rightarrow> writer \<times> world" where
  "writeBody env ep w0 b s0 =
     (let w = w0\<lparr>gzip := gzon b\<rparr> in
      case writePointData env ep b w s0 of
        (None, s1) \<Rightarrow> (w, s1)
      | (Some err, s1) \<Rightarrow>
          (let s2 = logf (SendFailed (length (pts w)) (category w) (gzip w) err) s1 in
           if err = ErrWritePoints4XX then (w, s2)
           else
             (case fc w of
                None \<Rightarrow> (w, s2)
              | Some put \<Rightarrow>
                  if cacheAll w then
                    (case doCache env put w b s2 of
                       (Some e, s3) \<Rightarrow> (w, logf (DoCacheFailed (npts b) (category w) e) s3)
                     | (None, s3) \<Rightarrow> (w, logf (DoCacheOk (npts b) (category w)) s3))
                  else if notCached env (category w) then
                    (w, logf (Dropped (npts b) (category w)) s2)
                  else
                    (case doCache env put w b s2 of
                       (Some e, s3) \<Rightarrow> (w, logf (DoCacheFailed (npts b) (category w) e) s3)
                     | (None, s3) \<Rightarrow> (w, s3)))))"

text \<open>The loop \<^verbatim>\<open>for _, body := range bodies\<close> of \<^verbatim>\<open>writePoints\<close>.\<close>

fun writeBodies :: "env \<Rightarrow> endPoint \<Rightarrow> writer \<Rightarrow> body list \<Rightarrow> world \<Rightarrow> writer \<times> world" where
  "writeBodies env ep w [] s = (w, s)"
| "writeBodies env ep w (b # bs) s =
     (case writeBody env ep w b s of (w1, s1) \<Rightarrow> writeBodies env ep w1 bs s1)"

definition writePoints :: "env \<Rightarrow> endPoint \<Rightarrow> writer \<Rightarrow> world \<Rightarrow> error option \<times> writer \<times> world" where
  "writePoints env ep w s =
     (case buildBody env (pts w) (MaxKodoBody env) of
        Inl e \<Rightarrow> (Some e, w, s)
      | Inr bodies \<Rightarrow> (case writeBodies env ep w bodies s of (w1, s1) \<Rightarrow> (None, w1, s1)))"

subsection \<open>Go's \<^verbatim>\<open>net/url\<close>: \<^verbatim>\<open>Query\<close>, \<^verbatim>\<open>Get\<close> and \<^verbatim>\<open>Encode\<close>\<close>

text \<open>
  \<^verbatim>\<open>newEndpoint\<close> copies the query of the base URL through \<^verbatim>\<open>u.Query().Encode()\<close>. Both
  are functions of Go's standard library, not of the repository; they are written out here
  after the library (\<^verbatim>\<open>ParseQuery\<close>, \<^verbatim>\<open>QueryUnescape\<close>, \<^verbatim>\<open>QueryEscape\<close>,
  \<^verbatim>\<open>Values.Encode\<close>), since what reaches the category URLs is what they compute.
  \<^verbatim>\<open>url.Values\<close> is a map from a key to the list of its values: an association list in the
  order the keys were first seen.
\<close>

type_synonym Values = "(string \<times> string list) list"

definition ishex :: "char \<Rightarrow> bool" where
  "ishex c =
     (let n = (of_char c :: nat) in
      (48 \<le> n \<and> n \<le> 57) \<or> (97 \<le> n \<and> n \<le> 102) \<or> (65 \<le> n \<and> n \<le> 70))"

definition unhex :: "char \<Rightarrow> nat" where
  "unhex c =
     (let n = (of_char c :: nat) in
      if 48 \<le> n \<and> n \<le> 57 then n - 48
      else if 97 \<le> n \<and> n \<le> 102 then n - 97 + 10
      else if 65 \<le> n \<and> n \<le> 70 then n - 65 + 10
      else 0)"

text \<open>\<^verbatim>\<open>QueryUnescape\<close>: \<open>None\<close> is its \<^verbatim>\<open>EscapeError\<close>.\<close>

fun QueryUnescape :: "string \<Rightarrow> string option" where
  "QueryUnescape [] = Some []"
| "QueryUnescape (c # cs) =
     (if c = CHR ''%'' then
        (case cs of
           h1 # h2 # rest \<Rightarrow>
             if ishex h1 \<and> ishex h2
             then map_option ((#) (char_of (unhex h1 * 16 + unhex h2))) (QueryUnescape rest)
             else None
         | _ \<Rightarrow> None)
      else if c = CHR ''+'' then map_option ((#) CHR '' '') (QueryUnescape cs)
      else map_option ((#) c) (QueryUnescape cs))"

text \<open>\<^verbatim>\<open>shouldEscape(c, encodeQueryComponent)\<close>: all but letters, digits and \<^verbatim>\<open>-_.~\<close>.\<close>

definition shouldEscape :: "char \<Rightarrow> bool" where
  "shouldEscape c =
     (let n = (of_char c :: nat) in
      \<not> ((97 \<le> n \<and> n \<le> 122) \<or> (65 \<le> n \<and> n \<le> 90) \<or> (48 \<le> n \<and> n \<le> 57)
         \<or> c = CHR ''-'' \<or> c = CHR ''_'' \<or> c = CHR ''.'' \<or> c = CHR ''~''))"

definition upperhex :: "nat \<Rightarrow> char" where
  "upperhex n = ''0123456789ABCDEF'' ! (n mod 16)"

fun QueryEscape :: "string \<Rightarrow> string" where
  "QueryEscape [] = []"
| "QueryEscape (c # cs) =
     (if c = CHR '' '' then CHR ''+'' # QueryEscape cs
      else if shouldEscape c
      then CHR ''%'' # upperhex (of_char c div 16) # upperhex (of_char c mod 16) # QueryEscape cs
      else c # QueryEscape cs)"

text \<open>\<^verbatim>\<open>strings.Cut(s, sep)\<close> for a separator of one byte: before, after, found.\<close>

fun Cut :: "string \<Rightarrow> char \<Rightarrow> string \<times> string \<times> bool" where
  "Cut [] sep = ([], [], False)"
| "Cut (c # cs) sep =
     (if c = sep then ([], cs, True)
      else (case Cut cs sep of (before, after, found) \<Rightarrow> (c # before, after, found)))"

text \<open>\<^verbatim>\<open>m[key] = append(m[key], value)\<close>.\<close>

fun addValue :: "string \<Rightarrow> string \<Rightarrow> Values \<Rightarrow> Values" where
  "addValue k v [] = [(k, [v])]"
| "addValue k v ((k', vs) # m) =
     (if k' = k then (k', vs @ [v]) # m else (k', vs) # addValue k v m)"

lemma Cut_after_length: "Cut s sep = (x, a, b) \<Longrightarrow> length a \<le> length s"
  by (induction s arbitrary: x a b) (auto split: prod.splits if_splits)

text \<open>
  \<^verbatim>\<open>parseQuery\<close>, whose error \<^verbatim>\<open>Query\<close> discards: a pair with a semicolon, an empty pair
  and a pair with a malformed escape are skipped.
\<close>

function parseQuery :: "Values \<Rightarrow> string \<Rightarrow> Values" where
  "parseQuery m [] = m"
| "parseQuery m (c # cs) =
     (case Cut (c # cs) CHR ''&'' of
        (key, query, found) \<Rightarrow>
          if Contains key '';'' then parseQuery m query
          else if key = [] then parseQuery m query
          else
            (case Cut key CHR ''='' of
               (k, v, found') \<Rightarrow>
                 (case QueryUnescape k of
                    None \<Rightarrow> parseQuery m query
                  | Some k1 \<Rightarrow>
                      (case QueryUnescape v of
                         None \<Rightarrow> parseQuery m query
                       | Some v1 \<Rightarrow> parseQuery (addValue k1 v1 m) query))))"
  by pat_completeness auto
termination
  apply (relation "measure (\<lambda>(m, q). length q)")
  apply (auto split: if_splits prod.splits dest: Cut_after_length)
  done

definition Query :: "URL \<Rightarrow> Values" where
  "Query u = parseQuery [] (RawQuery u)"

text \<open>\<^verbatim>\<open>Values.Get\<close>: the first value of the key, or the empty string.\<close>

definition Get :: "Values \<Rightarrow> string \<Rightarrow> string" where
  "Get m k = (case map_of m k of None \<Rightarrow> [] | Some [] \<Rightarrow> [] | Some (v # vs) \<Rightarrow> v)"

text \<open>Go compares strings byte by byte.\<close>

fun strLess :: "string \<Rightarrow> string \<Rightarrow> bool" where
  "strLess [] [] = False"
| "strLess [] (y # ys) = True"
| "strLess (x # xs) [] = False"
| "strLess (x # xs) (y # ys) =
     ((of_char x :: nat) < of_char y \<or> (x = y \<and> strLess xs ys))"

fun insertKey :: "string \<times> string list \<Rightarrow> Values \<Rightarrow> Values" where
  "insertKey kv [] = [kv]"
| "insertKey kv (e # es) = (if strLess (fst e) (fst kv) then e # insertKey kv es else kv # e # es)"

definition sortKeys :: "Values \<Rightarrow> Values" where
  "sortKeys m = foldr insertKey m []"

fun joinAmp :: "string list \<Rightarrow> string" where
  "joinAmp [] = []"
| "joinAmp [p] = p"
| "joinAmp (p # q # ps) = p @ ''&'' @ joinAmp (q # ps)"

text \<open>\<^verbatim>\<open>Values.Encode\<close>: the pairs, escaped, sorted by key.\<close>

definition Encode :: "Values \<Rightarrow> string" where
  "Encode m =
     joinAmp (concat (map (\<lambda>(k, vs). map (\<lambda>v. QueryEscape k @ ''='' @ QueryEscape v) vs)
                          (sortKeys m)))"

subsection \<open>Construction of an endpoint\<close>

text \<open>
  An option is a function on the endpoint, or nil. The package builds options with five
  functions only, so an option is the call that built it.
\<close>

datatype endPointOption =
    nilOption
  | withAPIs "string list"
  | withHTTPTrace bool
  | withMaxHTTPIdleConnectionPerHost int
  | withHTTPTimeout int
  | withProxy string

fun applyOption :: "endPointOption \<Rightarrow> endPoint \<Rightarrow> endPoint" where
  "applyOption nilOption ep = ep"
| "applyOption (withAPIs arr) ep = ep\<lparr>apis := arr\<rparr>"
| "applyOption (withHTTPTrace on) ep = ep\<lparr>httpTrace := on\<rparr>"
| "applyOption (withMaxHTTPIdleConnectionPerHost n) ep =
     (if n > 0 then ep\<lparr>maxHTTPIdleConnectionPerHost := n\<rparr> else ep)"
| "applyOption (withHTTPTimeout timeout) ep =
     (if timeout > 0 then ep\<lparr>httpTimeout := timeout\<rparr> else ep)"
| "applyOption (withProxy p) ep = ep\<lparr>proxy := p\<rparr>"

text \<open>
  \<^verbatim>\<open>setupHTTP\<close>: a DNS cache that cannot be set up and a proxy that does not parse are
  logged and ignored; the function always returns nil.
\<close>

definition setupHTTP :: "env \<Rightarrow> endPoint \<Rightarrow> error option \<times> endPoint" where
  "setupHTTP env ep =
     (let cliopts = \<lparr>DialTimeout = httpTimeout ep,
                     MaxIdleConnsPerHost = maxHTTPIdleConnectionPerHost ep,
                     DialContext = dnsCacheDialContext env,
                     ProxyURL = None\<rparr>;
          cliopts1 =
            (if proxy ep \<noteq> [] then
               (case ParseRequestURI env (proxy ep) of
                  Inl e \<Rightarrow> cliopts
                | Inr u \<Rightarrow> cliopts\<lparr>ProxyURL := Some u\<rparr>)
             else cliopts)
      in (None, ep\<lparr>httpCli := Some cliopts1\<rparr>))"

text \<open>The body of the loop \<^verbatim>\<open>for _, api := range ep.apis\<close> (lines 108 to 121).\<close>

definition setCategoryURL :: "URL \<Rightarrow> string \<Rightarrow> endPoint \<Rightarrow> endPoint" where
  "setCategoryURL u api ep =
     (let q = Encode (Query u) in
      if q \<noteq> [] then
        ep\<lparr>categoryURL := (categoryURL ep)(api \<mapsto> scheme ep @ ''://'' @ host ep @ api @ ''?'' @ q)\<rparr>
      else
        ep\<lparr>categoryURL := (categoryURL ep)(api \<mapsto> scheme ep @ ''://'' @ host ep @ api)\<rparr>)"

definition newEndpoint :: "env \<Rightarrow> string \<Rightarrow> endPointOption list \<Rightarrow> error + endPoint" where
  "newEndpoint env urlstr opts =
     (case ParseRequestURI env urlstr of
        Inl e \<Rightarrow> Inl (ErrParseRequestURI e)
      | Inr u \<Rightarrow>
          (let ep0 = \<lparr>token = Get (Query u) ''token'', host = Host u, scheme = Scheme u,
                      categoryURL = Map.empty, httpCli = None, proxy = [], apis = [],
                      httpTimeout = 0, maxHTTPIdleConnectionPerHost = 0, httpTrace = False\<rparr>;
               ep1 = fold applyOption opts ep0;
               ep2 = fold (setCategoryURL u) (apis ep1) ep1
           in if scheme ep2 = ''http'' \<or> scheme ep2 = ''https'' then
                (case setupHTTP env ep2 of
                   (Some e, ep3) \<Rightarrow> Inl e
                 | (None, ep3) \<Rightarrow> Inr ep3)
              else Inl (ErrNotSupportedScheme (scheme ep2))))"

subsection \<open>Two readings of a delivery\<close>

text \<open>
  Two functions of this development, not of the source, used to state what a delivery did.
  \<open>target\<close> is the URL \<^verbatim>\<open>writePointData\<close> hands to the HTTP client, when it gets that far:
  the URL of the category in the routing table, else the dynamic URL when it is not empty
  and parses, and only when \<^verbatim>\<open>http.NewRequest\<close> accepts it. \<open>returned\<close> is the error
  \<^verbatim>\<open>writePointData\<close> returns for an answer of the client. Lemmas \<open>wpd_reqs\<close> and
  \<open>wpd_answered\<close> below tie both to \<open>writePointData\<close>.
\<close>

definition target :: "env \<Rightarrow> endPoint \<Rightarrow> writer \<Rightarrow> string option" where
  "target env ep w =
     (case categoryURL ep (category w) of
        Some u \<Rightarrow> (case NewRequest env u of None \<Rightarrow> Some u | Some e \<Rightarrow> None)
      | None \<Rightarrow>
          if dynamicURL w \<noteq> [] then
            (case ParseRequestURI env (dynamicURL w) of
               Inl e \<Rightarrow> None
             | Inr pu \<Rightarrow>
                 (case NewRequest env (dynamicURL w) of
                    None \<Rightarrow> Some (dynamicURL w)
                  | Some e \<Rightarrow> None))
          else None)"

definition returned :: "string + response \<Rightarrow> error option" where
  "returned ans =
     (case ans of
        Inl e \<Rightarrow> Some (ErrSendReq e)
      | Inr resp \<Rightarrow>
         (case Body resp of
            Inl e \<Rightarrow> Some (ErrReadAll e)
          | Inr rb \<Rightarrow>
             if StatusCode resp div 100 = 2 then None
             else if StatusCode resp div 100 = 4 then Some ErrWritePoints4XX
             else Some ErrDatawayInternal))"

subsection \<open>Sample values\<close>

text \<open>
  Inputs for the concrete cases below: a segmenter that makes one body of each point, a
  parser that knows three URLs, an encoder that puts the two tags before the payload, the
  constants of package \<^verbatim>\<open>datakit\<close> with the paths of the wire protocol, and a network that
  is a parameter.
\<close>

definition sampleBuildBody :: "point list \<Rightarrow> nat \<Rightarrow> error + body list" where
  "sampleBuildBody ps n = Inr (map (\<lambda>p. \<lparr>buf = p, npts = 1, payload = 1, gzon = False\<rparr>) ps)"

definition sampleParse :: "string \<Rightarrow> string + URL" where
  "sampleParse s =
     (if s = ''https://gw.example/?token=T1''
      then Inr \<lparr>Scheme = ''https'', Host = ''gw.example'', RawQuery = ''token=T1''\<rparr>
      else if s = ''https://gw.example/?token=T1&a=b''
      then Inr \<lparr>Scheme = ''https'', Host = ''gw.example'', RawQuery = ''token=T1&a=b''\<rparr>
      else if s = ''http://dial.example/cb''
      then Inr \<lparr>Scheme = ''http'', Host = ''dial.example'', RawQuery = []\<rparr>
      else Inl ''invalid URI for request'')"

definition sampleMarshal :: "CacheData \<Rightarrow> string + bytes" where
  "sampleMarshal cd =
     Inr (char_of (unat (Category cd)) # char_of (unat (PayloadType cd)) # Payload cd)"

definition sampleEnv :: "(nat \<Rightarrow> request \<Rightarrow> string + response) \<Rightarrow> env" where
  "sampleEnv net =
     \<lparr>Metric = ''/v1/write/metric'', MetricDeprecated = ''/v1/write/metrics'',
      Object = ''/v1/write/object'', CustomObject = ''/v1/write/custom_object'',
      DynamicDatawayCategory = ''dynamicDatawayCategory'', MaxKodoBody = 10485760,
      ExtraHeaders = [], buildBody = sampleBuildBody, ParseRequestURI = sampleParse,
      NewRequest = (\<lambda>u. None), httpDo = net, unixNow = (\<lambda>n. 1700000000 + of_nat n),
      CatURL = (\<lambda>c. if c = ''/v1/write/logging'' then 6 else 1),
      pbMarshal = sampleMarshal, dnsCacheDialContext = True\<rparr>"

text \<open>A network that answers every request with one status and one body.\<close>

definition answers :: "nat \<Rightarrow> bytes \<Rightarrow> nat \<Rightarrow> request \<Rightarrow> string + response" where
  "answers code rb n req = Inr \<lparr>StatusCode = code, Body = Inr rb\<rparr>"

definition sampleEndPoint :: endPoint where
  "sampleEndPoint =
     \<lparr>token = ''T1'', host = ''gw.example'', scheme = ''https'',
      categoryURL =
        [''/v1/write/metric'' \<mapsto> ''https://gw.example/v1/write/metric?token=T1'',
         ''/v1/write/logging'' \<mapsto> ''https://gw.example/v1/write/logging?token=T1''],
      httpCli = Some \<lparr>DialTimeout = 0, MaxIdleConnsPerHost = 0, DialContext = True,
                      ProxyURL = None\<rparr>,
      proxy = [],
      apis = [''/v1/write/metric'', ''/v1/write/logging''],
      httpTimeout = 0, maxHTTPIdleConnectionPerHost = 0, httpTrace = False\<rparr>"

definition sampleWriter :: "string \<Rightarrow> failcache option \<Rightarrow> writer" where
  "sampleWriter cat cache =
     \<lparr>category = cat, pts = [''p1'', ''p2''], gzip = False, fc = cache, cacheAll = False,
      dynamicURL = [], isSinker = False\<rparr>"

definition sampleBody :: body where
  "sampleBody = \<lparr>buf = ''p1'', npts = 1, payload = 1, gzon = False\<rparr>"

definition world0 :: world where
  "world0 = \<lparr>BeyondUsage = 0, reqs = [], puts = [], dtinfo = [], logs = []\<rparr>"

definition noPutError :: failcache where
  "noPutError n r = None"

definition loggingRequest :: request where
  "loggingRequest =
     \<lparr>Method = ''POST'', ReqURL = ''https://gw.example/v1/write/logging?token=T1'',
      Header = [], ReqBody = ''p1''\<rparr>"

definition metricRequest :: request where
  "metricRequest =
     \<lparr>Method = ''POST'', ReqURL = ''https://gw.example/v1/write/metric?token=T1'',
      Header = [], ReqBody = ''p1''\<rparr>"

text \<open>A network that answers the first request with a 500 and refuses every later one.\<close>

definition flaky :: "nat \<Rightarrow> request \<Rightarrow> string + response" where
  "flaky n req =
     (if n = 0 then Inr \<lparr>StatusCode = 500, Body = Inr ''oops''\<rparr> else Inl ''connection refused'')"

text \<open>A network whose responses carry a status and a body that cannot be read.\<close>

definition unreadable :: "nat \<Rightarrow> nat \<Rightarrow> request \<Rightarrow> string + response" where
  "unreadable code n req = Inr \<lparr>StatusCode = code, Body = Inl ''unexpected EOF''\<rparr>"

lemmas write_defs =
  writeBody_def writePointData_def post_def sendReq_def classify_def buildRequest_def
  doCache_def notCached_def logf_def updateDTFailInfo_def Let_def

lemmas sample_defs =
  sampleEnv_def sampleEndPoint_def sampleWriter_def sampleBody_def world0_def answers_def
  sampleMarshal_def sampleBuildBody_def sampleParse_def noPutError_def loggingRequest_def
  metricRequest_def flaky_def unreadable_def

section \<open>Lemmas on the write path\<close>


lemma logf_fields [simp]:
  "reqs (logf l s) = reqs s" "puts (logf l s) = puts s" "dtinfo (logf l s) = dtinfo s"
  "BeyondUsage (logf l s) = BeyondUsage s" "logs (logf l s) = logs s @ [l]"
  by (simp_all add: logf_def)

lemma updateDTFailInfo_fields [simp]:
  "reqs (updateDTFailInfo u ok s) = reqs s" "puts (updateDTFailInfo u ok s) = puts s"
  "dtinfo (updateDTFailInfo u ok s) = dtinfo s @ [(u, ok)]"
  "BeyondUsage (updateDTFailInfo u ok s) = BeyondUsage s" "logs (updateDTFailInfo u ok s) = logs s"
  by (simp_all add: updateDTFailInfo_def)

lemma classify_fst:
  "fst (classify env w b u code rb s) =
     (if code div 100 = 2 then None
      else if code div 100 = 4 then Some ErrWritePoints4XX else Some ErrDatawayInternal)"
  by (simp add: classify_def Let_def)

lemma classify_keeps [simp]:
  "reqs (snd (classify env w b u code rb s)) = reqs s"
  "puts (snd (classify env w b u code rb s)) = puts s"
  "dtinfo (snd (classify env w b u code rb s)) = dtinfo s"
  by (simp_all add: classify_def Let_def)

lemma classify_BeyondUsage:
  "BeyondUsage (snd (classify env w b u code rb s)) =
     (if code div 100 = 2 then (if Contains u ''/v1/write/'' \<and> 0 < sint (BeyondUsage s) then 0 else BeyondUsage s)
      else if code = 403 \<and> Contains rb ''beyondDataUsage''
      then BeyondUsage s + unixNow env (length (reqs s))
      else BeyondUsage s)"
  by (simp add: classify_def Let_def)

lemma post_keeps [simp]:
  "puts (snd (post env ep b w u s)) = puts s"
  "dtinfo (snd (post env ep b w u s)) = dtinfo s"
  by (simp_all add: post_def sendReq_def split: option.splits sum.splits)

lemma post_reqs:
  "reqs (snd (post env ep b w u s)) =
     reqs s @ (case NewRequest env u of None \<Rightarrow> [buildRequest env w b u] | Some e \<Rightarrow> [])"
  by (simp add: post_def sendReq_def split: option.splits sum.splits)

lemma post_result:
  "post env ep b w u s =
     (case NewRequest env u of
        Some e \<Rightarrow> (Some (ErrNewRequest e), logf (NewRequestFailed e) s)
      | None \<Rightarrow>
          (case httpDo env (length (reqs s)) (buildRequest env w b u) of
             Inl e \<Rightarrow> (Some (ErrSendReq e),
                        logf (SendReqFailed u (proxy ep) e) (s\<lparr>reqs := reqs s @ [buildRequest env w b u]\<rparr>))
           | Inr resp \<Rightarrow>
               (case Body resp of
                  Inl e \<Rightarrow> (Some (ErrReadAll e),
                             logf (ReadAllFailed e) (s\<lparr>reqs := reqs s @ [buildRequest env w b u]\<rparr>))
                | Inr rb \<Rightarrow> classify env w b u (StatusCode resp) rb
                              (s\<lparr>reqs := reqs s @ [buildRequest env w b u]\<rparr>))))"
  by (simp add: post_def sendReq_def split: option.splits sum.splits)


lemma post_fst:
  "NewRequest env u = None \<Longrightarrow>
   fst (post env ep b w u s) = returned (httpDo env (length (reqs s)) (buildRequest env w b u))"
  by (simp add: post_result returned_def classify_fst split: sum.splits)

lemma post_sent:
  assumes "reqs (snd (post env ep b w u s)) = reqs s @ [req]"
  shows "NewRequest env u = None \<and> req = buildRequest env w b u"
  using assms by (cases "NewRequest env u") (simp_all add: post_reqs)

lemma wpd_static:
  "categoryURL ep (category w) = Some u \<Longrightarrow>
   writePointData env ep b w s = post env ep b w u s"
  by (simp add: writePointData_def)

lemma wpd_dynamic:
  "categoryURL ep (category w) = None \<Longrightarrow> dynamicURL w \<noteq> [] \<Longrightarrow>
   ParseRequestURI env (dynamicURL w) = Inr pu \<Longrightarrow>
   writePointData env ep b w s =
     (fst (post env ep b w (dynamicURL w) (logf (TryDynamicURL (dynamicURL w)) s)),
      updateDTFailInfo (dynamicURL w) False
        (snd (post env ep b w (dynamicURL w) (logf (TryDynamicURL (dynamicURL w)) s))))"
  by (simp add: writePointData_def Let_def)

lemma wpd_unparsed:
  "categoryURL ep (category w) = None \<Longrightarrow> dynamicURL w \<noteq> [] \<Longrightarrow>
   ParseRequestURI env (dynamicURL w) = Inl e \<Longrightarrow>
   writePointData env ep b w s = (Some (ErrParseRequestURI e), s)"
  by (simp add: writePointData_def Let_def)

lemma wpd_noroute:
  "categoryURL ep (category w) = None \<Longrightarrow> dynamicURL w = [] \<Longrightarrow>
   writePointData env ep b w s = (Some (ErrInvalidURL (dynamicURL w)), s)"
  by (simp add: writePointData_def Let_def)


lemma timestamp_sum_nonzero:
  fixes x y :: "64 word"
  assumes "0 < sint x" and "0 \<le> sint y"
  shows "x + y \<noteq> 0"
proof -
  have "sint x < 2 ^ 63" and "sint y < 2 ^ 63"
    using sint_lt [of x] sint_lt [of y] by simp_all
  with assms have "0 < sint x + sint y" and "sint x + sint y < 2 ^ 64"
    by simp_all
  then have "\<not> (2 :: int) ^ 64 dvd (sint x + sint y)"
    by (rule zdvd_not_zless)
  then show ?thesis
    using word_of_int_eq_0_iff [where 'a = 64, of "sint x + sint y"] by simp
qed

lemma wpd_puts [simp]: "puts (snd (writePointData env ep b w s)) = puts s"
  by (simp add: writePointData_def Let_def split: option.splits sum.splits)

lemma wpd_reqs:
  "reqs (snd (writePointData env ep b w s)) =
     reqs s @ (case target env ep w of None \<Rightarrow> [] | Some u \<Rightarrow> [buildRequest env w b u])"
  by (simp add: writePointData_def target_def Let_def post_reqs split: option.splits sum.splits)

lemma wpd_answered:
  assumes "reqs (snd (writePointData env ep b w s)) = reqs s @ [req]"
  shows "fst (writePointData env ep b w s) = returned (httpDo env (length (reqs s)) req)"
proof (cases "categoryURL ep (category w)")
  case (Some u)
  with assms show ?thesis
    using post_sent [of env ep b w u s req] by (simp add: wpd_static post_fst)
next
  case None
  show ?thesis
  proof (cases "dynamicURL w = []")
    case True
    with None assms show ?thesis by (simp add: wpd_noroute)
  next
    case False
    show ?thesis
    proof (cases "ParseRequestURI env (dynamicURL w)")
      case (Inl e)
      with None False assms show ?thesis by (simp add: wpd_unparsed)
    next
      case (Inr pu)
      with None False assms show ?thesis
        using post_sent [of env ep b w "dynamicURL w" "logf (TryDynamicURL (dynamicURL w)) s" req]
        by (simp add: wpd_dynamic post_fst)
    qed
  qed
qed

lemma doCache_keeps [simp]:
  "reqs (snd (doCache env put w b s)) = reqs s"
  "dtinfo (snd (doCache env put w b s)) = dtinfo s"
  "BeyondUsage (snd (doCache env put w b s)) = BeyondUsage s"
  "logs (snd (doCache env put w b s)) = logs s"
  by (simp_all add: doCache_def split: sum.splits)

lemma doCache_puts:
  "puts (snd (doCache env put w b s)) =
     puts s @ (case pbMarshal env \<lparr>Category = CatURL env (category w),
                                    PayloadType = word_of_int (payload b),
                                    Payload = buf b\<rparr> of
                 Inl e \<Rightarrow> [] | Inr cachedata \<Rightarrow> [cachedata])"
  by (simp add: doCache_def split: sum.splits)


lemma writeBody_ok:
  "fst (writePointData env ep b (w\<lparr>gzip := gzon b\<rparr>) s) = None \<Longrightarrow>
   snd (writeBody env ep w b s) = snd (writePointData env ep b (w\<lparr>gzip := gzon b\<rparr>) s)"
  by (simp add: writeBody_def Let_def split_beta)

lemma writeBody_4XX:
  "fst (writePointData env ep b (w\<lparr>gzip := gzon b\<rparr>) s) = Some ErrWritePoints4XX \<Longrightarrow>
   snd (writeBody env ep w b s) =
     logf (SendFailed (length (pts w)) (category w) (gzon b) ErrWritePoints4XX)
       (snd (writePointData env ep b (w\<lparr>gzip := gzon b\<rparr>) s))"
  by (simp add: writeBody_def Let_def split_beta)

lemma writeBody_nil_fc:
  "fst (writePointData env ep b (w\<lparr>gzip := gzon b\<rparr>) s) = Some err \<Longrightarrow> fc w = None \<Longrightarrow>
   snd (writeBody env ep w b s) =
     logf (SendFailed (length (pts w)) (category w) (gzon b) err)
       (snd (writePointData env ep b (w\<lparr>gzip := gzon b\<rparr>) s))"
  by (simp add: writeBody_def Let_def split_beta)

lemma writeBody_dropped:
  "fst (writePointData env ep b (w\<lparr>gzip := gzon b\<rparr>) s) = Some err \<Longrightarrow>
   err \<noteq> ErrWritePoints4XX \<Longrightarrow> fc w = Some put \<Longrightarrow> \<not> cacheAll w \<Longrightarrow>
   notCached env (category w) \<Longrightarrow>
   snd (writeBody env ep w b s) =
     logf (Dropped (npts b) (category w))
       (logf (SendFailed (length (pts w)) (category w) (gzon b) err)
         (snd (writePointData env ep b (w\<lparr>gzip := gzon b\<rparr>) s)))"
  by (simp add: writeBody_def Let_def split_beta)

lemma writeBody_cached:
  "fst (writePointData env ep b (w\<lparr>gzip := gzon b\<rparr>) s) = Some err \<Longrightarrow>
   err \<noteq> ErrWritePoints4XX \<Longrightarrow> fc w = Some put \<Longrightarrow>
   cacheAll w \<or> \<not> notCached env (category w) \<Longrightarrow>
   puts (snd (writeBody env ep w b s)) =
     puts s @ (case pbMarshal env \<lparr>Category = CatURL env (category w),
                                    PayloadType = word_of_int (payload b),
                                    Payload = buf b\<rparr> of
                 Inl e \<Rightarrow> [] | Inr cachedata \<Rightarrow> [cachedata])"
  by (auto simp add: writeBody_def Let_def split_beta doCache_puts [where w = "w\<lparr>gzip := gzon b\<rparr>", simplified]
      split: option.splits)

lemma writeBody_reqs:
  "reqs (snd (writeBody env ep w b s)) =
     reqs (snd (writePointData env ep b (w\<lparr>gzip := gzon b\<rparr>) s))"
  by (simp add: writeBody_def Let_def split_beta split: option.splits)

lemma writeBody_flag:
  "BeyondUsage (snd (writeBody env ep w b s)) =
     BeyondUsage (snd (writePointData env ep b (w\<lparr>gzip := gzon b\<rparr>) s))"
  by (simp add: writeBody_def Let_def split_beta split: option.splits)

lemma writeBody_writer: "fst (writeBody env ep w b s) = w\<lparr>gzip := gzon b\<rparr>"
  by (simp add: writeBody_def Let_def split_beta split: option.splits)

lemma writeBody_puts_nil_fc:
  "fc w = None \<Longrightarrow> puts (snd (writeBody env ep w b s)) = puts s"
  by (cases "fst (writePointData env ep b (w\<lparr>gzip := gzon b\<rparr>) s)")
     (simp_all add: writeBody_ok writeBody_nil_fc)

lemma target_gzip [simp]: "target env ep (w\<lparr>gzip := g\<rparr>) = target env ep w"
  by (auto simp add: target_def split: option.splits sum.splits)

lemma writeBodies_reqs:
  "reqs (snd (writeBodies env ep w bs s)) =
     reqs s @ (case target env ep w of
                 None \<Rightarrow> []
               | Some u \<Rightarrow> map (\<lambda>b. buildRequest env (w\<lparr>gzip := gzon b\<rparr>) b u) bs)"
proof (induction bs arbitrary: w s)
  case Nil
  then show ?case by (simp split: option.splits)
next
  case (Cons b bs)
  obtain w1 s1 where step: "writeBody env ep w b s = (w1, s1)"
    by (cases "writeBody env ep w b s")
  then have w1: "w1 = w\<lparr>gzip := gzon b\<rparr>"
    using writeBody_writer [of env ep w b s] by simp
  have s1: "reqs s1 = reqs s @ (case target env ep w of None \<Rightarrow> []
                                | Some u \<Rightarrow> [buildRequest env (w\<lparr>gzip := gzon b\<rparr>) b u])"
    using step writeBody_reqs [of env ep w b s] by (simp add: wpd_reqs)
  show ?case
    using Cons.IH [of w1 s1] step w1 s1 by (simp split: option.splits)
qed

lemma writeBodies_puts_nil_fc:
  "fc w = None \<Longrightarrow> puts (snd (writeBodies env ep w bs s)) = puts s"
proof (induction bs arbitrary: w s)
  case Nil
  then show ?case by simp
next
  case (Cons b bs)
  obtain w1 s1 where step: "writeBody env ep w b s = (w1, s1)"
    by (cases "writeBody env ep w b s")
  then have "fc w1 = None" and "puts s1 = puts s"
    using Cons.prems writeBody_writer [of env ep w b s] writeBody_puts_nil_fc [of w env ep b s]
    by simp_all
  then show ?case
    using Cons.IH [of w1 s1] step by simp
qed


lemma post_flag:
  "BeyondUsage (snd (post env ep b w u s)) =
     (case NewRequest env u of
        Some e \<Rightarrow> BeyondUsage s
      | None \<Rightarrow>
          (case httpDo env (length (reqs s)) (buildRequest env w b u) of
             Inl e \<Rightarrow> BeyondUsage s
           | Inr resp \<Rightarrow>
               (case Body resp of
                  Inl e \<Rightarrow> BeyondUsage s
                | Inr rb \<Rightarrow>
                    if StatusCode resp div 100 = 2 then
                      (if Contains u ''/v1/write/'' \<and> 0 < sint (BeyondUsage s) then 0
                       else BeyondUsage s)
                    else if StatusCode resp = 403 \<and> Contains rb ''beyondDataUsage''
                    then BeyondUsage s + unixNow env (Suc (length (reqs s)))
                    else BeyondUsage s)))"
proof (cases "NewRequest env u")
  case None
  show ?thesis
  proof (cases "httpDo env (length (reqs s)) (buildRequest env w b u)")
    case (Inl e)
    with None show ?thesis by (simp add: post_result)
  next
    case (Inr resp)
    with None show ?thesis
      by (cases "Body resp") (simp_all add: post_result classify_BeyondUsage)
  qed
next
  case (Some e)
  then show ?thesis by (simp add: post_result)
qed

lemma target_static:
  "categoryURL ep (category w) = Some u \<Longrightarrow>
   target env ep w = (case NewRequest env u of None \<Rightarrow> Some u | Some e \<Rightarrow> None)"
  by (simp add: target_def)

lemma target_dynamic:
  "categoryURL ep (category w) = None \<Longrightarrow> dynamicURL w \<noteq> [] \<Longrightarrow>
   ParseRequestURI env (dynamicURL w) = Inr pu \<Longrightarrow>
   target env ep w =
     (case NewRequest env (dynamicURL w) of None \<Rightarrow> Some (dynamicURL w) | Some e \<Rightarrow> None)"
  by (simp add: target_def)

lemma target_none:
  "categoryURL ep (category w) = None \<Longrightarrow>
   dynamicURL w = [] \<or> (\<exists>e. ParseRequestURI env (dynamicURL w) = Inl e) \<Longrightarrow>
   target env ep w = None"
  by (auto simp add: target_def)

lemma wpd_flag_none:
  assumes "target env ep w = None"
  shows "BeyondUsage (snd (writePointData env ep b w s)) = BeyondUsage s"
proof (cases "categoryURL ep (category w)")
  case (Some u)
  with assms show ?thesis
    by (cases "NewRequest env u") (simp_all add: wpd_static post_flag target_static)
next
  case None
  show ?thesis
  proof (cases "dynamicURL w = []")
    case True
    with None show ?thesis by (simp add: wpd_noroute)
  next
    case False
    show ?thesis
    proof (cases "ParseRequestURI env (dynamicURL w)")
      case (Inl e)
      with None False show ?thesis by (simp add: wpd_unparsed)
    next
      case (Inr pu)
      with None False assms show ?thesis
        by (cases "NewRequest env (dynamicURL w)")
           (simp_all add: wpd_dynamic post_flag target_dynamic)
    qed
  qed
qed

lemma wpd_flag_some:
  assumes "target env ep w = Some u"
  shows "BeyondUsage (snd (writePointData env ep b w s)) =
          (case httpDo env (length (reqs s)) (buildRequest env w b u) of
             Inl e \<Rightarrow> BeyondUsage s
           | Inr resp \<Rightarrow>
               (case Body resp of
                  Inl e \<Rightarrow> BeyondUsage s
                | Inr rb \<Rightarrow>
                    if StatusCode resp div 100 = 2 then
                      (if Contains u ''/v1/write/'' \<and> 0 < sint (BeyondUsage s) then 0
                       else BeyondUsage s)
                    else if StatusCode resp = 403 \<and> Contains rb ''beyondDataUsage''
                    then BeyondUsage s + unixNow env (Suc (length (reqs s)))
                    else BeyondUsage s))"
proof (cases "categoryURL ep (category w)")
  case (Some u')
  with assms show ?thesis
    by (cases "NewRequest env u'") (simp_all add: wpd_static post_flag target_static)
next
  case None
  show ?thesis
  proof (cases "dynamicURL w = []")
    case True
    with None assms show ?thesis by (simp add: target_none)
  next
    case False
    show ?thesis
    proof (cases "ParseRequestURI env (dynamicURL w)")
      case (Inl e)
      with None assms show ?thesis by (simp add: target_none)
    next
      case (Inr pu)
      with None False assms show ?thesis
        by (cases "NewRequest env (dynamicURL w)")
           (auto simp add: wpd_dynamic post_flag target_dynamic split: sum.splits)
    qed
  qed
qed

text \<open>
  The flag starts at 0 and is written by a store of 0 and by the addition of a clock
  reading only: short of an overflow of the 64 bits it is never negative.
\<close>

lemma sint_sum_in_range:
  fixes x y :: "64 word"
  assumes "0 \<le> sint x" and "0 \<le> sint y" and "sint x + sint y < 2 ^ 63"
  shows "sint (x + y) = sint x + sint y"
proof -
  have "signed_take_bit 63 (sint x + sint y) = sint x + sint y"
    using assms by (intro signed_take_bit_int_eq_self) simp_all
  then show ?thesis
    by (simp add: sint_word_add)
qed

lemma flag_stays_nonnegative:
  assumes "0 \<le> sint (BeyondUsage s)"
    and "0 \<le> sint (unixNow env (Suc (length (reqs s))))"
    and "sint (BeyondUsage s) + sint (unixNow env (Suc (length (reqs s)))) < 2 ^ 63"
  shows "0 \<le> sint (BeyondUsage (snd (writePointData env ep b w s)))"
proof (cases "target env ep w")
  case None
  then show ?thesis
    using assms(1) by (simp add: wpd_flag_none)
next
  case (Some u)
  have "0 \<le> sint (BeyondUsage s + unixNow env (Suc (length (reqs s))))"
    using assms by (simp add: sint_sum_in_range)
  with Some assms(1) show ?thesis
    by (simp add: wpd_flag_some split: sum.splits)
qed

lemma wpd_dtinfo_dynamic:
  "categoryURL ep (category w) = None \<Longrightarrow> dynamicURL w \<noteq> [] \<Longrightarrow>
   ParseRequestURI env (dynamicURL w) = Inr pu \<Longrightarrow>
   dtinfo (snd (writePointData env ep b w s)) = dtinfo s @ [(dynamicURL w, False)]"
  by (simp add: wpd_dynamic)

lemma writePoints_Inr:
  "buildBody env (pts w) (MaxKodoBody env) = Inr bodies \<Longrightarrow>
   writePoints env ep w s =
     (None, fst (writeBodies env ep w bodies s), snd (writeBodies env ep w bodies s))"
  by (simp add: writePoints_def split_beta)

lemma writePoints_Inl:
  "buildBody env (pts w) (MaxKodoBody env) = Inl e \<Longrightarrow> writePoints env ep w s = (Some e, w, s)"
  by (simp add: writePoints_def)


section \<open>Lemmas on the construction\<close>

lemma applyOption_keeps [simp]:
  "scheme (applyOption opt ep) = scheme ep"
  "host (applyOption opt ep) = host ep"
  "categoryURL (applyOption opt ep) = categoryURL ep"
  by (cases opt; simp)+

lemma fold_applyOption_keeps [simp]:
  "scheme (fold applyOption opts ep) = scheme ep"
  "host (fold applyOption opts ep) = host ep"
  "categoryURL (fold applyOption opts ep) = categoryURL ep"
  by (induction opts arbitrary: ep; simp)+

lemma setCategoryURL_keeps [simp]:
  "scheme (setCategoryURL u api ep) = scheme ep"
  "host (setCategoryURL u api ep) = host ep"
  "apis (setCategoryURL u api ep) = apis ep"
  by (simp_all add: setCategoryURL_def Let_def)

lemma setCategoryURL_route:
  "categoryURL (setCategoryURL u api ep) =
     (categoryURL ep)(api \<mapsto> scheme ep @ ''://'' @ host ep @ api @
        (if Encode (Query u) = [] then [] else ''?'' @ Encode (Query u)))"
  by (simp add: setCategoryURL_def Let_def)

lemma fold_setCategoryURL_keeps [simp]:
  "scheme (fold (setCategoryURL u) as ep) = scheme ep"
  "host (fold (setCategoryURL u) as ep) = host ep"
  "apis (fold (setCategoryURL u) as ep) = apis ep"
  by (induction as arbitrary: ep; simp)+

lemma fold_setCategoryURL_other:
  "api \<notin> set as \<Longrightarrow> categoryURL (fold (setCategoryURL u) as ep) api = categoryURL ep api"
  by (induction as arbitrary: ep) (auto simp add: setCategoryURL_route)

lemma fold_setCategoryURL_route:
  "api \<in> set as \<Longrightarrow>
   categoryURL (fold (setCategoryURL u) as ep) api =
     Some (scheme ep @ ''://'' @ host ep @ api @
        (if Encode (Query u) = [] then [] else ''?'' @ Encode (Query u)))"
proof (induction as arbitrary: ep)
  case Nil
  then show ?case by simp
next
  case (Cons a as)
  show ?case
  proof (cases "api \<in> set as")
    case True
    then show ?thesis
      using Cons.IH [of "setCategoryURL u a ep"] by simp
  next
    case False
    with Cons.prems have "api = a" by simp
    with False show ?thesis
      by (simp add: fold_setCategoryURL_other setCategoryURL_route)
  qed
qed

lemma setupHTTP_result:
  "setupHTTP env ep = (None, ep\<lparr>httpCli := httpCli (snd (setupHTTP env ep))\<rparr>)"
  by (simp add: setupHTTP_def Let_def)

lemma Encode_empty_query: "RawQuery u = [] \<Longrightarrow> Encode (Query u) = []"
  by (simp add: Query_def Encode_def sortKeys_def)

lemma Cut_absent: "sep \<notin> set s \<Longrightarrow> Cut s sep = (s, [], False)"
  by (induction s) auto

lemma Cut_first: "sep \<notin> set k \<Longrightarrow> Cut (k @ sep # v) sep = (k, v, True)"
  by (induction k) auto

lemma Contains_char: "Contains s [c] \<longleftrightarrow> c \<in> set s"
  by (induction s) auto

lemma plain_chars:
  assumes "\<not> shouldEscape c"
  shows "c \<noteq> CHR ''&''" "c \<noteq> CHR ''=''" "c \<noteq> CHR '';''" "c \<noteq> CHR ''%''" "c \<noteq> CHR ''+''"
    "c \<noteq> CHR '' ''"
  using assms by (auto simp add: shouldEscape_def)

lemma QueryUnescape_plain: "\<forall>c \<in> set s. \<not> shouldEscape c \<Longrightarrow> QueryUnescape s = Some s"
  by (induction s) (auto dest: plain_chars)

lemma QueryEscape_plain: "\<forall>c \<in> set s. \<not> shouldEscape c \<Longrightarrow> QueryEscape s = s"
  by (induction s) (auto dest: plain_chars)

lemma parseQuery_one:
  assumes "Cut q CHR ''&'' = (key, [], found)" and "\<not> Contains key '';''" and "key \<noteq> []"
    and "Cut key CHR ''='' = (k, v, found')"
    and "QueryUnescape k = Some k1" and "QueryUnescape v = Some v1"
  shows "parseQuery m q = addValue k1 v1 m"
proof (cases q)
  case Nil
  with assms show ?thesis by simp
next
  case (Cons c cs)
  then have "Cut (c # cs) CHR ''&'' = (key, [], found)"
    using assms(1) by simp
  then show ?thesis
    using Cons assms(2-6) by (simp del: Cut.simps)
qed

lemma Encode_plain_pair:
  assumes "k \<noteq> []" and "\<forall>c \<in> set (k @ v). \<not> shouldEscape c"
    and "RawQuery u = k @ ''='' @ v"
  shows "Encode (Query u) = RawQuery u"
proof -
  have k: "\<forall>c \<in> set k. \<not> shouldEscape c" and v: "\<forall>c \<in> set v. \<not> shouldEscape c"
    using assms(2) by auto
  have "CHR ''&'' \<notin> set (k @ CHR ''='' # v)"
    using assms(2) by (auto dest: plain_chars)
  then have amp: "Cut (k @ CHR ''='' # v) CHR ''&'' = (k @ CHR ''='' # v, [], False)"
    by (rule Cut_absent)
  have "CHR '';'' \<notin> set (k @ CHR ''='' # v)"
    using assms(2) by (auto dest: plain_chars)
  then have semi: "\<not> Contains (k @ CHR ''='' # v) '';''"
    by (simp add: Contains_char)
  have "CHR ''='' \<notin> set k"
    using k by (auto dest: plain_chars)
  then have eq: "Cut (k @ CHR ''='' # v) CHR ''='' = (k, v, True)"
    by (rule Cut_first)
  have "parseQuery [] (k @ CHR ''='' # v) = addValue k v []"
    using amp semi _ eq QueryUnescape_plain [OF k] QueryUnescape_plain [OF v]
    by (rule parseQuery_one) simp
  then have "Query u = [(k, [v])]"
    using assms(3) by (simp add: Query_def)
  then show ?thesis
    using k v assms(3) by (simp add: Encode_def sortKeys_def QueryEscape_plain)
qed

lemma newEndpoint_Inr:
  assumes "newEndpoint env urlstr opts = Inr ep"
  obtains u where "ParseRequestURI env urlstr = Inr u"
    and "ep = (fold (setCategoryURL u) (apis (fold applyOption opts
                 \<lparr>token = Get (Query u) ''token'', host = Host u, scheme = Scheme u,
                  categoryURL = Map.empty, httpCli = None, proxy = [], apis = [],
                  httpTimeout = 0, maxHTTPIdleConnectionPerHost = 0, httpTrace = False\<rparr>))
               (fold applyOption opts
                 \<lparr>token = Get (Query u) ''token'', host = Host u, scheme = Scheme u,
                  categoryURL = Map.empty, httpCli = None, proxy = [], apis = [],
                  httpTimeout = 0, maxHTTPIdleConnectionPerHost = 0, httpTrace = False\<rparr>))
             \<lparr>httpCli := httpCli ep\<rparr>"
proof (cases "ParseRequestURI env urlstr")
  case (Inl e)
  with assms show ?thesis by (simp add: newEndpoint_def)
next
  case (Inr u)
  let ?ep1 = "fold applyOption opts
                 \<lparr>token = Get (Query u) ''token'', host = Host u, scheme = Scheme u,
                  categoryURL = Map.empty, httpCli = None, proxy = [], apis = [],
                  httpTimeout = 0, maxHTTPIdleConnectionPerHost = 0, httpTrace = False\<rparr>"
  let ?ep2 = "fold (setCategoryURL u) (apis ?ep1) ?ep1"
  from assms Inr have "ep = snd (setupHTTP env ?ep2)"
    by (simp add: newEndpoint_def Let_def split_beta split: if_splits option.splits)
  then have "ep = ?ep2\<lparr>httpCli := httpCli ep\<rparr>"
    using setupHTTP_result [of env ?ep2] by (metis snd_conv)
  with Inr that show ?thesis by blast
qed

section \<open>The claims\<close>

text \<open>
  In the statements below a delivery \<^emph>\<open>receives\<close> an answer when the world after it holds
  one more request, \<open>reqs s' = reqs s @ [req]\<close>, and \<open>httpDo env (length (reqs s)) req\<close> is
  that answer: an error of the client (a network error), or a response with a status and a
  body. \<open>Body resp = Inr rb\<close> says that the body was read; \<open>Body resp = Inl e\<close> that reading it
  failed.
\<close>

text \<open>
  C1, as amended. A delivery ends in a network error or a 5xx response, the request has
  \<^verbatim>\<open>cacheAll = false\<close> and a failure cache (\<^verbatim>\<open>w.fc\<close> is not nil). If the category is metric,
  deprecated metric, object, custom object or the dynamic category, nothing is put and the
  last log line is the warning that the points were dropped. For every other category the
  record made of the category code, the payload tag and the bytes of the body is encoded and
  put, once; nothing is put when the encoding fails.
\<close>

theorem C1_cache_or_drop:
  assumes "reqs (snd (writeBody env ep w b s)) = reqs s @ [req]"
    and "(\<exists>e. httpDo env (length (reqs s)) req = Inl e) \<or>
         (\<exists>resp rb. httpDo env (length (reqs s)) req = Inr resp \<and> Body resp = Inr rb \<and>
                     StatusCode resp div 100 = 5)"
    and "\<not> cacheAll w"
    and "fc w = Some put"
  shows "if notCached env (category w)
         then puts (snd (writeBody env ep w b s)) = puts s \<and>
              last (logs (snd (writeBody env ep w b s))) = Dropped (npts b) (category w) \<and>
              levelOf (Dropped (npts b) (category w)) = Warn
         else puts (snd (writeBody env ep w b s)) =
              puts s @ (case pbMarshal env \<lparr>Category = CatURL env (category w),
                                             PayloadType = word_of_int (payload b),
                                             Payload = buf b\<rparr> of
                          Inl e \<Rightarrow> [] | Inr cachedata \<Rightarrow> [cachedata])"
proof -
  let ?w = "w\<lparr>gzip := gzon b\<rparr>"
  have "reqs (snd (writePointData env ep b ?w s)) = reqs s @ [req]"
    using assms(1) by (simp add: writeBody_reqs)
  then have ret: "fst (writePointData env ep b ?w s) = returned (httpDo env (length (reqs s)) req)"
    by (rule wpd_answered)
  from assms(2) obtain err where err: "returned (httpDo env (length (reqs s)) req) = Some err"
    and no4: "err \<noteq> ErrWritePoints4XX"
    by (auto simp add: returned_def)
  show ?thesis
  proof (cases "notCached env (category w)")
    case True
    then show ?thesis
      using ret err no4 assms(3,4) writeBody_dropped [of env ep b w s err put] by simp
  next
    case False
    then show ?thesis
      using ret err no4 assms(3,4) writeBody_cached [of env ep b w s err put] by simp
  qed
qed

text \<open>
  The amended C1 at a 500 answer: a logging body is put once, as its category code 6, its
  tag 1 and its bytes; a metric body is dropped with the warning.
\<close>

theorem C1_cache_or_drop_witness:
  "\<not> notCached (sampleEnv (answers 500 ''oops'')) ''/v1/write/logging'' \<and>
   puts (snd (writeBody (sampleEnv (answers 500 ''oops'')) sampleEndPoint
                (sampleWriter ''/v1/write/logging'' (Some noPutError)) sampleBody world0)) =
     [char_of (6 :: nat) # char_of (1 :: nat) # ''p1''] \<and>
   notCached (sampleEnv (answers 500 ''oops'')) ''/v1/write/metric'' \<and>
   puts (snd (writeBody (sampleEnv (answers 500 ''oops'')) sampleEndPoint
                (sampleWriter ''/v1/write/metric'' (Some noPutError)) sampleBody world0)) = [] \<and>
   last (logs (snd (writeBody (sampleEnv (answers 500 ''oops'')) sampleEndPoint
                (sampleWriter ''/v1/write/metric'' (Some noPutError)) sampleBody world0))) =
     Dropped 1 ''/v1/write/metric''"
proof -
  let ?E = "sampleEnv (answers 500 ''oops'')"
  let ?L = "sampleWriter ''/v1/write/logging'' (Some noPutError)"
  let ?M = "sampleWriter ''/v1/write/metric'' (Some noPutError)"
  have sentL: "reqs (snd (writeBody ?E sampleEndPoint ?L sampleBody world0)) =
                 reqs world0 @ [loggingRequest]"
    by (simp add: write_defs sample_defs)
  have sentM: "reqs (snd (writeBody ?E sampleEndPoint ?M sampleBody world0)) =
                 reqs world0 @ [metricRequest]"
    by (simp add: write_defs sample_defs)
  have ans: "(\<exists>e. httpDo ?E (length (reqs world0)) r = Inl e) \<or>
             (\<exists>resp rb. httpDo ?E (length (reqs world0)) r = Inr resp \<and> Body resp = Inr rb \<and>
                         StatusCode resp div 100 = 5)" for r
    by (simp add: sample_defs)
  have pol: "\<not> cacheAll ?L" "fc ?L = Some noPutError" "\<not> cacheAll ?M" "fc ?M = Some noPutError"
    by (simp_all add: sampleWriter_def)
  have cats: "\<not> notCached ?E (category ?L)" "notCached ?E (category ?M)"
    by (simp_all add: notCached_def sampleEnv_def sampleWriter_def)
  have "puts (snd (writeBody ?E sampleEndPoint ?L sampleBody world0)) =
          [char_of (6 :: nat) # char_of (1 :: nat) # ''p1'']"
    using C1_cache_or_drop [OF sentL ans pol(1,2)] cats(1)
    by (simp add: sample_defs)
  moreover have "puts (snd (writeBody ?E sampleEndPoint ?M sampleBody world0)) = [] \<and>
      last (logs (snd (writeBody ?E sampleEndPoint ?M sampleBody world0))) =
        Dropped 1 ''/v1/write/metric''"
    using C1_cache_or_drop [OF sentM ans pol(3,4)] cats(2)
    by (simp add: sample_defs)
  ultimately show ?thesis
    using cats by (simp add: sampleWriter_def)
qed

text \<open>
  C1 as stated fails when the request has no failure cache: a logging body that got a 500
  with \<^verbatim>\<open>cacheAll = false\<close> is not put, because \<^verbatim>\<open>writeBody\<close> returns at
  \<^verbatim>\<open>w.fc == nil\<close>.
\<close>

theorem C1_counterexample:
  "reqs (snd (writeBody (sampleEnv (answers 500 ''oops'')) sampleEndPoint
                (sampleWriter ''/v1/write/logging'' None) sampleBody world0)) = [loggingRequest] \<and>
   httpDo (sampleEnv (answers 500 ''oops'')) 0 loggingRequest =
     Inr \<lparr>StatusCode = 500, Body = Inr ''oops''\<rparr> \<and>
   \<not> cacheAll (sampleWriter ''/v1/write/logging'' None) \<and>
   \<not> notCached (sampleEnv (answers 500 ''oops'')) ''/v1/write/logging'' \<and>
   puts (snd (writeBody (sampleEnv (answers 500 ''oops'')) sampleEndPoint
                (sampleWriter ''/v1/write/logging'' None) sampleBody world0)) = []"
  by (simp add: write_defs sample_defs)

text \<open>
  C2. \<^verbatim>\<open>writePoints\<close> returns the error of the segmenter when segmentation fails, and nil
  otherwise, whatever the network and the failure cache answer. In the second case every
  body is sent, in order, to the target of the request (when it has one): no answer to one
  body keeps a later body from being sent.
\<close>

theorem C2_writePoints_absorbs_failures:
  "case buildBody env (pts w) (MaxKodoBody env) of
     Inl e \<Rightarrow> writePoints env ep w s = (Some e, w, s)
   | Inr bodies \<Rightarrow>
       fst (writePoints env ep w s) = None \<and>
       reqs (snd (snd (writePoints env ep w s))) =
         reqs s @ (case target env ep w of
                     None \<Rightarrow> []
                   | Some u \<Rightarrow> map (\<lambda>b. buildRequest env (w\<lparr>gzip := gzon b\<rparr>) b u) bodies)"
  by (cases "buildBody env (pts w) (MaxKodoBody env)")
     (simp_all add: writePoints_Inl writePoints_Inr writeBodies_reqs)

text \<open>
  C2 on a network that answers the first body with a 500 and refuses the second: both
  bodies are sent and the call returns nil.
\<close>

theorem C2_writePoints_absorbs_failures_witness:
  "httpDo (sampleEnv flaky) 0 loggingRequest = Inr \<lparr>StatusCode = 500, Body = Inr ''oops''\<rparr> \<and>
   httpDo (sampleEnv flaky) 1 (loggingRequest\<lparr>ReqBody := ''p2''\<rparr>) = Inl ''connection refused'' \<and>
   fst (writePoints (sampleEnv flaky) sampleEndPoint
          (sampleWriter ''/v1/write/logging'' (Some noPutError)) world0) = None \<and>
   reqs (snd (snd (writePoints (sampleEnv flaky) sampleEndPoint
          (sampleWriter ''/v1/write/logging'' (Some noPutError)) world0))) =
     [loggingRequest, loggingRequest\<lparr>ReqBody := ''p2''\<rparr>]"
  using C2_writePoints_absorbs_failures
          [where env = "sampleEnv flaky" and ep = sampleEndPoint and s = world0
             and w = "sampleWriter ''/v1/write/logging'' (Some noPutError)"]
  by (simp add: target_def buildRequest_def sample_defs)

text \<open>
  C3, on the code. The first 403 answer that carries \<^verbatim>\<open>beyondDataUsage\<close> takes the flag from 0
  to the clock (1700000001 here). The second one \<^emph>\<open>adds\<close> the clock to the flag
  (\<^verbatim>\<open>atomic.AddInt64\<close>): the flag becomes 3400000003, so its value is not unchanged and is
  not the current time.
\<close>

theorem C3_second_quota_answer_adds:
  "BeyondUsage (snd (writePointData (sampleEnv (answers 403 ''beyondDataUsage'')) sampleEndPoint
       sampleBody (sampleWriter ''/v1/write/logging'' None) world0)) = 1700000001 \<and>
   BeyondUsage (snd (writePointData (sampleEnv (answers 403 ''beyondDataUsage'')) sampleEndPoint
       sampleBody (sampleWriter ''/v1/write/logging'' None)
       (snd (writePointData (sampleEnv (answers 403 ''beyondDataUsage'')) sampleEndPoint
          sampleBody (sampleWriter ''/v1/write/logging'' None) world0)))) = 3400000003"
  by (simp add: write_defs sample_defs)

text \<open>
  C4, as amended. The flag is set (a positive time, as the two writers of this file leave
  it) and the clock is positive. Then a delivery leaves the flag at 0 exactly when it
  received a 2xx response to a URL that contains \<^verbatim>\<open>/v1/write/\<close> and the body of that
  response was read: such a response clears the flag, and nothing else does, not even a
  2xx response whose body cannot be read. What \<^verbatim>\<open>writeBody\<close> does after the delivery does
  not touch the flag.
\<close>

theorem C4_flag_cleared_only_by_2xx_write:
  assumes "0 < sint (BeyondUsage s)"
    and "0 < sint (unixNow env (Suc (length (reqs s))))"
  shows "(BeyondUsage (snd (writePointData env ep b w s)) = 0 \<longleftrightarrow>
          (\<exists>req resp rb.
             reqs (snd (writePointData env ep b w s)) = reqs s @ [req] \<and>
             httpDo env (length (reqs s)) req = Inr resp \<and> Body resp = Inr rb \<and>
             StatusCode resp div 100 = 2 \<and> Contains (ReqURL req) ''/v1/write/'')) \<and>
         BeyondUsage (snd (writeBody env ep w b s)) =
           BeyondUsage (snd (writePointData env ep b (w\<lparr>gzip := gzon b\<rparr>) s))"
proof -
  have nz: "BeyondUsage s \<noteq> 0"
    using assms(1) by auto
  have "0 \<le> sint (unixNow env (Suc (length (reqs s))))"
    using assms(2) by simp
  with assms(1) have add: "BeyondUsage s + unixNow env (Suc (length (reqs s))) \<noteq> 0"
    by (rule timestamp_sum_nonzero)
  have url: "ReqURL (buildRequest env w b u) = u" for u
    by (simp add: buildRequest_def)
  have "BeyondUsage (snd (writePointData env ep b w s)) = 0 \<longleftrightarrow>
          (\<exists>req resp rb.
             reqs (snd (writePointData env ep b w s)) = reqs s @ [req] \<and>
             httpDo env (length (reqs s)) req = Inr resp \<and> Body resp = Inr rb \<and>
             StatusCode resp div 100 = 2 \<and> Contains (ReqURL req) ''/v1/write/'')"
  proof (cases "target env ep w")
    case None
    then show ?thesis
      using nz by (simp add: wpd_flag_none wpd_reqs)
  next
    case (Some u)
    then show ?thesis
      using nz add assms(1) url
      by (auto simp add: wpd_flag_some wpd_reqs split: sum.splits)
  qed
  then show ?thesis
    by (simp add: writeBody_flag)
qed

text \<open>The amended C4 at a flag of 1700000000 and a 200 answer to the metric URL.\<close>

theorem C4_flag_cleared_only_by_2xx_write_witness:
  "0 < sint (BeyondUsage (world0\<lparr>BeyondUsage := 1700000000\<rparr>)) \<and>
   0 < sint (unixNow (sampleEnv (answers 200 [])) (Suc 0)) \<and>
   BeyondUsage (snd (writePointData (sampleEnv (answers 200 [])) sampleEndPoint sampleBody
       (sampleWriter ''/v1/write/metric'' None) (world0\<lparr>BeyondUsage := 1700000000\<rparr>))) = 0"
proof -
  let ?E = "sampleEnv (answers 200 [])"
  let ?s = "world0\<lparr>BeyondUsage := 1700000000\<rparr>"
  let ?W = "sampleWriter ''/v1/write/metric'' None"
  have pos: "0 < sint (BeyondUsage ?s)"
    by (simp add: world0_def)
  have clock: "0 < sint (unixNow ?E (Suc (length (reqs ?s))))"
    by (simp add: sample_defs)
  have "reqs (snd (writePointData ?E sampleEndPoint sampleBody ?W ?s)) = reqs ?s @ [metricRequest] \<and>
        httpDo ?E (length (reqs ?s)) metricRequest = Inr \<lparr>StatusCode = 200, Body = Inr []\<rparr> \<and>
        Body \<lparr>StatusCode = 200, Body = Inr []\<rparr> = Inr [] \<and>
        StatusCode \<lparr>StatusCode = 200, Body = (Inr [] :: string + bytes)\<rparr> div 100 = 2 \<and>
        Contains (ReqURL metricRequest) ''/v1/write/''"
    by (simp add: write_defs sample_defs)
  then have "\<exists>req resp rb.
        reqs (snd (writePointData ?E sampleEndPoint sampleBody ?W ?s)) = reqs ?s @ [req] \<and>
        httpDo ?E (length (reqs ?s)) req = Inr resp \<and> Body resp = Inr rb \<and>
        StatusCode resp div 100 = 2 \<and> Contains (ReqURL req) ''/v1/write/''"
    by blast
  then have "BeyondUsage (snd (writePointData ?E sampleEndPoint sampleBody ?W ?s)) = 0"
    using C4_flag_cleared_only_by_2xx_write
            [where ep = sampleEndPoint and b = sampleBody and w = ?W, OF pos clock]
    by blast
  then show ?thesis
    using pos clock by (simp add: world0_def)
qed

text \<open>
  C4 as stated fails on a 2xx response whose body cannot be read: \<^verbatim>\<open>writePointData\<close> returns
  the error of \<^verbatim>\<open>ioutil.ReadAll\<close> (lines 320 to 324) before it looks at the status, so a 200
  answer to the metric URL leaves a flag of 1700000000 as it is.
\<close>

theorem C4_counterexample:
  "BeyondUsage (world0\<lparr>BeyondUsage := 1700000000\<rparr>) \<noteq> 0 \<and>
   reqs (snd (writePointData (sampleEnv (unreadable 200)) sampleEndPoint sampleBody
       (sampleWriter ''/v1/write/metric'' None) (world0\<lparr>BeyondUsage := 1700000000\<rparr>))) =
     [metricRequest] \<and>
   httpDo (sampleEnv (unreadable 200)) 0 metricRequest =
     Inr \<lparr>StatusCode = 200, Body = Inl ''unexpected EOF''\<rparr> \<and>
   Contains (ReqURL metricRequest) ''/v1/write/'' \<and>
   BeyondUsage (snd (writePointData (sampleEnv (unreadable 200)) sampleEndPoint sampleBody
       (sampleWriter ''/v1/write/metric'' None) (world0\<lparr>BeyondUsage := 1700000000\<rparr>))) =
     1700000000"
  by (simp add: write_defs sample_defs)

text \<open>
  C5, as amended. A body whose delivery received a 4xx response, the body of which was
  read, is never put into the failure cache, whatever \<^verbatim>\<open>cacheAll\<close>, the category and the
  failure cache are.
\<close>

theorem C5_no_put_on_4XX:
  assumes "reqs (snd (writeBody env ep w b s)) = reqs s @ [req]"
    and "httpDo env (length (reqs s)) req = Inr resp"
    and "Body resp = Inr rb"
    and "StatusCode resp div 100 = 4"
  shows "puts (snd (writeBody env ep w b s)) = puts s"
proof -
  let ?w = "w\<lparr>gzip := gzon b\<rparr>"
  have "reqs (snd (writePointData env ep b ?w s)) = reqs s @ [req]"
    using assms(1) by (simp add: writeBody_reqs)
  then have "fst (writePointData env ep b ?w s) = returned (httpDo env (length (reqs s)) req)"
    by (rule wpd_answered)
  then have "fst (writePointData env ep b ?w s) = Some ErrWritePoints4XX"
    using assms by (simp add: returned_def)
  then show ?thesis
    by (simp add: writeBody_4XX)
qed

text \<open>
  The amended C5 at a 404 answer to a logging body with \<^verbatim>\<open>cacheAll = true\<close> and a failure
  cache.
\<close>

theorem C5_no_put_on_4XX_witness:
  "cacheAll ((sampleWriter ''/v1/write/logging'' (Some noPutError))\<lparr>cacheAll := True\<rparr>) \<and>
   httpDo (sampleEnv (answers 404 ''not found'')) 0 loggingRequest =
     Inr \<lparr>StatusCode = 404, Body = Inr ''not found''\<rparr> \<and>
   reqs (snd (writeBody (sampleEnv (answers 404 ''not found'')) sampleEndPoint
       ((sampleWriter ''/v1/write/logging'' (Some noPutError))\<lparr>cacheAll := True\<rparr>)
       sampleBody world0)) = [loggingRequest] \<and>
   puts (snd (writeBody (sampleEnv (answers 404 ''not found'')) sampleEndPoint
       ((sampleWriter ''/v1/write/logging'' (Some noPutError))\<lparr>cacheAll := True\<rparr>)
       sampleBody world0)) = []"
proof -
  let ?E = "sampleEnv (answers 404 ''not found'')"
  let ?W = "(sampleWriter ''/v1/write/logging'' (Some noPutError))\<lparr>cacheAll := True\<rparr>"
  let ?resp = "\<lparr>StatusCode = 404, Body = (Inr ''not found'' :: string + bytes)\<rparr>"
  have sent: "reqs (snd (writeBody ?E sampleEndPoint ?W sampleBody world0)) =
                reqs world0 @ [loggingRequest]"
    by (simp add: write_defs sample_defs)
  have ans: "httpDo ?E (length (reqs world0)) loggingRequest = Inr ?resp"
    by (simp add: sample_defs)
  have read: "Body ?resp = Inr ''not found''" and code: "StatusCode ?resp div 100 = 4"
    by simp_all
  show ?thesis
    using C5_no_put_on_4XX [OF sent ans read code] sent ans
    by (simp add: world0_def sampleWriter_def)
qed

text \<open>
  C5 as stated fails on a 4xx response whose body cannot be read: \<^verbatim>\<open>writePointData\<close> returns
  the error of \<^verbatim>\<open>ioutil.ReadAll\<close> (lines 320 to 324), not \<^verbatim>\<open>errWritePoints4XX\<close>, and
  \<^verbatim>\<open>writeBody\<close> puts the body of a 404 answer into the failure cache.
\<close>

theorem C5_counterexample:
  "reqs (snd (writeBody (sampleEnv (unreadable 404)) sampleEndPoint
       ((sampleWriter ''/v1/write/logging'' (Some noPutError))\<lparr>cacheAll := True\<rparr>)
       sampleBody world0)) = [loggingRequest] \<and>
   httpDo (sampleEnv (unreadable 404)) 0 loggingRequest =
     Inr \<lparr>StatusCode = 404, Body = Inl ''unexpected EOF''\<rparr> \<and>
   404 div 100 = (4 :: nat) \<and>
   puts (snd (writeBody (sampleEnv (unreadable 404)) sampleEndPoint
       ((sampleWriter ''/v1/write/logging'' (Some noPutError))\<lparr>cacheAll := True\<rparr>)
       sampleBody world0)) = [char_of (6 :: nat) # char_of (1 :: nat) # ''p1'']"
  by (simp add: write_defs sample_defs)

text \<open>
  C6, on the code. A body is delivered through a dynamic URL and the answer is a 200; the
  callback is called once, with \<^verbatim>\<open>ok = false\<close>: \<^verbatim>\<open>httpCode\<close> is never assigned, so
  \<^verbatim>\<open>httpCode/100 == 2\<close> is false for every answer.
\<close>

theorem C6_callback_reports_failure_on_200:
  "categoryURL sampleEndPoint ''dynamicDatawayCategory'' = None \<and>
   httpDo (sampleEnv (answers 200 [])) 0
     \<lparr>Method = ''POST'', ReqURL = ''http://dial.example/cb'', Header = [], ReqBody = ''p1''\<rparr> =
     Inr \<lparr>StatusCode = 200, Body = Inr []\<rparr> \<and>
   writePointData (sampleEnv (answers 200 [])) sampleEndPoint sampleBody
     ((sampleWriter ''dynamicDatawayCategory'' None)\<lparr>dynamicURL := ''http://dial.example/cb''\<rparr>)
     world0 =
   (None,
    \<lparr>BeyondUsage = 0,
     reqs = [\<lparr>Method = ''POST'', ReqURL = ''http://dial.example/cb'', Header = [],
              ReqBody = ''p1''\<rparr>],
     puts = [],
     dtinfo = [(''http://dial.example/cb'', False)],
     logs = [TryDynamicURL ''http://dial.example/cb'',
             Posting 2 ''http://dial.example/cb'',
             PostOk 2 ''http://dial.example/cb'' False]\<rparr>)"
  by (simp add: write_defs sample_defs)

text \<open>
  C7, as amended. When the category is not in the routing table and the dynamic URL is
  empty, \<^verbatim>\<open>writePointData\<close> returns the error \<^verbatim>\<open>invalid url\<close> and does nothing else. The error
  stops at \<^verbatim>\<open>writeBody\<close>: \<^verbatim>\<open>writePoints\<close> returns the error of the segmenter or nil, and sends
  no request.
\<close>

theorem C7_route_not_found_absorbed:
  assumes "categoryURL ep (category w) = None" and "dynamicURL w = []"
  shows "writePointData env ep b w s = (Some (ErrInvalidURL []), s) \<and>
         (case buildBody env (pts w) (MaxKodoBody env) of
            Inl e \<Rightarrow> fst (writePoints env ep w s) = Some e
          | Inr bodies \<Rightarrow>
              fst (writePoints env ep w s) = None \<and>
              reqs (snd (snd (writePoints env ep w s))) = reqs s)"
proof -
  have "target env ep w = None"
    using assms by (simp add: target_def)
  then show ?thesis
    using assms
    by (cases "buildBody env (pts w) (MaxKodoBody env)")
       (simp_all add: wpd_noroute writePoints_Inl writePoints_Inr writeBodies_reqs)
qed

text \<open>The amended C7 for the category \<^verbatim>\<open>/v1/write/rum\<close>, which the sample endpoint lacks.\<close>

theorem C7_route_not_found_absorbed_witness:
  "categoryURL sampleEndPoint (category (sampleWriter ''/v1/write/rum'' None)) = None \<and>
   dynamicURL (sampleWriter ''/v1/write/rum'' None) = [] \<and>
   writePointData (sampleEnv flaky) sampleEndPoint sampleBody
     (sampleWriter ''/v1/write/rum'' None) world0 = (Some (ErrInvalidURL []), world0) \<and>
   fst (writePoints (sampleEnv flaky) sampleEndPoint (sampleWriter ''/v1/write/rum'' None) world0) =
     None \<and>
   reqs (snd (snd (writePoints (sampleEnv flaky) sampleEndPoint
     (sampleWriter ''/v1/write/rum'' None) world0))) = []"
proof -
  have route: "categoryURL sampleEndPoint (category (sampleWriter ''/v1/write/rum'' None)) = None"
    by (simp add: sample_defs)
  have dyn: "dynamicURL (sampleWriter ''/v1/write/rum'' None) = []"
    by (simp add: sample_defs)
  show ?thesis
    using C7_route_not_found_absorbed
            [where env = "sampleEnv flaky" and b = sampleBody and s = world0, OF route dyn]
      route dyn
    by (simp add: sample_defs)
qed

text \<open>
  C7 as stated fails: for a category that is not routed and no dynamic URL,
  \<^verbatim>\<open>writePointData\<close> returns the error and \<^verbatim>\<open>writePoints\<close> returns nil.
\<close>

theorem C7_counterexample:
  "categoryURL sampleEndPoint ''/v1/write/tracing'' = None \<and>
   dynamicURL (sampleWriter ''/v1/write/tracing'' None) = [] \<and>
   fst (writePointData (sampleEnv (answers 200 [])) sampleEndPoint sampleBody
          (sampleWriter ''/v1/write/tracing'' None) world0) = Some (ErrInvalidURL []) \<and>
   fst (writePoints (sampleEnv (answers 200 [])) sampleEndPoint
          (sampleWriter ''/v1/write/tracing'' None) world0) = None"
  by (simp add: writePoints_def write_defs sample_defs)

text \<open>
  C8, as amended. An endpoint that was constructed has the scheme and the host of the base
  URL, and for every category of \<^verbatim>\<open>ep.apis\<close> the routing table holds scheme, \<^verbatim>\<open>://\<close>, host
  and the category path, followed by \<^verbatim>\<open>?\<close> and the query of the base URL as
  \<^verbatim>\<open>u.Query().Encode()\<close> writes it (parsed, sorted by key, escaped again), when that is not
  empty. Nothing is appended when the base URL has no query, and a query that is one pair
  \<^verbatim>\<open>key=value\<close> of letters, digits and \<^verbatim>\<open>-_.~\<close> is written as it was read.
\<close>

theorem C8_category_url:
  assumes "newEndpoint env urlstr opts = Inr ep"
  shows "\<exists>u. ParseRequestURI env urlstr = Inr u \<and> scheme ep = Scheme u \<and> host ep = Host u \<and>
           (\<forall>api \<in> set (apis ep).
              categoryURL ep api =
                Some (Scheme u @ ''://'' @ Host u @ api @
                      (if Encode (Query u) = [] then [] else ''?'' @ Encode (Query u)))) \<and>
           (RawQuery u = [] \<longrightarrow> Encode (Query u) = []) \<and>
           (\<forall>k v. k \<noteq> [] \<and> (\<forall>c \<in> set (k @ v). \<not> shouldEscape c) \<and>
                  RawQuery u = k @ ''='' @ v \<longrightarrow>
                  Encode (Query u) = RawQuery u)"
proof -
  from assms obtain u where parse: "ParseRequestURI env urlstr = Inr u"
    and ep: "ep = (fold (setCategoryURL u) (apis (fold applyOption opts
                 \<lparr>token = Get (Query u) ''token'', host = Host u, scheme = Scheme u,
                  categoryURL = Map.empty, httpCli = None, proxy = [], apis = [],
                  httpTimeout = 0, maxHTTPIdleConnectionPerHost = 0, httpTrace = False\<rparr>))
               (fold applyOption opts
                 \<lparr>token = Get (Query u) ''token'', host = Host u, scheme = Scheme u,
                  categoryURL = Map.empty, httpCli = None, proxy = [], apis = [],
                  httpTimeout = 0, maxHTTPIdleConnectionPerHost = 0, httpTrace = False\<rparr>))
             \<lparr>httpCli := httpCli ep\<rparr>"
    by (rule newEndpoint_Inr)
  let ?ep1 = "fold applyOption opts
                 \<lparr>token = Get (Query u) ''token'', host = Host u, scheme = Scheme u,
                  categoryURL = Map.empty, httpCli = None, proxy = [], apis = [],
                  httpTimeout = 0, maxHTTPIdleConnectionPerHost = 0, httpTrace = False\<rparr>"
  let ?ep2 = "fold (setCategoryURL u) (apis ?ep1) ?ep1"
  have sch: "scheme ep = Scheme u" and hst: "host ep = Host u" and aps: "apis ep = apis ?ep1"
    and cat: "categoryURL ep = categoryURL ?ep2"
    by (subst ep, simp)+
  have routes: "categoryURL ep api =
          Some (Scheme u @ ''://'' @ Host u @ api @
                (if Encode (Query u) = [] then [] else ''?'' @ Encode (Query u)))"
    if "api \<in> set (apis ep)" for api
    using that fold_setCategoryURL_route [of api "apis ?ep1" u ?ep1] by (simp add: aps cat)
  have none: "Encode (Query u) = []" if "RawQuery u = []"
    using that by (rule Encode_empty_query)
  have plain: "Encode (Query u) = RawQuery u"
    if "k \<noteq> []" and "\<forall>c \<in> set (k @ v). \<not> shouldEscape c" and "RawQuery u = k @ ''='' @ v"
    for k v
    using that by (rule Encode_plain_pair)
  show ?thesis
    using parse sch hst routes none plain by blast
qed

text \<open>
  The amended C8 for the base URL \<^verbatim>\<open>https://gw.example/?token=T1\<close> and the categories metric
  and logging: the query of one plain pair comes out as it went in.
\<close>

theorem C8_category_url_witness:
  "(case newEndpoint (sampleEnv flaky) ''https://gw.example/?token=T1''
           [withAPIs [''/v1/write/metric'', ''/v1/write/logging''], withHTTPTimeout 30] of
      Inl e \<Rightarrow> False
    | Inr ep \<Rightarrow>
        apis ep = [''/v1/write/metric'', ''/v1/write/logging''] \<and>
        categoryURL ep ''/v1/write/metric'' = Some ''https://gw.example/v1/write/metric?token=T1'' \<and>
        categoryURL ep ''/v1/write/logging'' = Some ''https://gw.example/v1/write/logging?token=T1'')"
proof -
  let ?new = "newEndpoint (sampleEnv flaky) ''https://gw.example/?token=T1''
                [withAPIs [''/v1/write/metric'', ''/v1/write/logging''], withHTTPTimeout 30]"
  have "\<exists>ep. ?new = Inr ep \<and> apis ep = [''/v1/write/metric'', ''/v1/write/logging'']"
    by (simp add: newEndpoint_def setupHTTP_def Let_def sample_defs)
  then obtain ep where new: "?new = Inr ep"
    and aps: "apis ep = [''/v1/write/metric'', ''/v1/write/logging'']"
    by blast
  from C8_category_url [OF new] obtain u
    where u: "ParseRequestURI (sampleEnv flaky) ''https://gw.example/?token=T1'' = Inr u"
      and routes: "\<forall>api \<in> set (apis ep).
              categoryURL ep api =
                Some (Scheme u @ ''://'' @ Host u @ api @
                      (if Encode (Query u) = [] then [] else ''?'' @ Encode (Query u)))"
    by blast
  from u have "u = \<lparr>Scheme = ''https'', Host = ''gw.example'', RawQuery = ''token=T1''\<rparr>"
    by (simp add: sample_defs)
  moreover have "Encode (Query \<lparr>Scheme = ''https'', Host = ''gw.example'',
                                RawQuery = ''token=T1''\<rparr>) = ''token=T1''"
    by (simp add: Encode_def Query_def sortKeys_def shouldEscape_def)
  ultimately show ?thesis
    using routes new aps by simp
qed

text \<open>
  C8 as stated fails on a base URL with two parameters: \<^verbatim>\<open>Encode\<close> sorts them by key, so
  \<^verbatim>\<open>token=T1&a=b\<close> reaches the category URL as \<^verbatim>\<open>a=b&token=T1\<close>.
\<close>

theorem C8_counterexample:
  "(case newEndpoint (sampleEnv flaky) ''https://gw.example/?token=T1&a=b''
           [withAPIs [''/v1/write/metric'']] of
      Inl e \<Rightarrow> False
    | Inr ep \<Rightarrow>
        categoryURL ep ''/v1/write/metric'' =
          Some ''https://gw.example/v1/write/metric?a=b&token=T1'' \<and>
        categoryURL ep ''/v1/write/metric'' \<noteq>
          Some ''https://gw.example/v1/write/metric?token=T1&a=b'')"
  by (simp add: newEndpoint_def setupHTTP_def setCategoryURL_def Let_def sample_defs
      Encode_def Query_def sortKeys_def shouldEscape_def)

text \<open>
  C9. When the request has no failure cache (\<^verbatim>\<open>w.fc\<close> is nil), neither \<^verbatim>\<open>writeBody\<close> nor
  \<^verbatim>\<open>writePoints\<close> puts anything, whatever \<^verbatim>\<open>cacheAll\<close> and the category are; after a failed
  delivery \<^verbatim>\<open>writeBody\<close> adds the line that the send failed and nothing more.
\<close>

theorem C9_nil_cache_never_puts:
  assumes "fc w = None"
  shows "puts (snd (writeBody env ep w b s)) = puts s \<and>
         puts (snd (snd (writePoints env ep w s))) = puts s \<and>
         snd (writeBody env ep w b s) =
           (case fst (writePointData env ep b (w\<lparr>gzip := gzon b\<rparr>) s) of
              None \<Rightarrow> snd (writePointData env ep b (w\<lparr>gzip := gzon b\<rparr>) s)
            | Some err \<Rightarrow>
                logf (SendFailed (length (pts w)) (category w) (gzon b) err)
                  (snd (writePointData env ep b (w\<lparr>gzip := gzon b\<rparr>) s)))"
proof -
  have "puts (snd (snd (writePoints env ep w s))) = puts s"
    using assms
    by (cases "buildBody env (pts w) (MaxKodoBody env)")
       (simp_all add: writePoints_Inl writePoints_Inr writeBodies_puts_nil_fc)
  moreover have "snd (writeBody env ep w b s) =
           (case fst (writePointData env ep b (w\<lparr>gzip := gzon b\<rparr>) s) of
              None \<Rightarrow> snd (writePointData env ep b (w\<lparr>gzip := gzon b\<rparr>) s)
            | Some err \<Rightarrow>
                logf (SendFailed (length (pts w)) (category w) (gzon b) err)
                  (snd (writePointData env ep b (w\<lparr>gzip := gzon b\<rparr>) s)))"
    using assms
    by (cases "fst (writePointData env ep b (w\<lparr>gzip := gzon b\<rparr>) s)")
       (simp_all add: writeBody_ok writeBody_nil_fc)
  moreover have "puts (snd (writeBody env ep w b s)) = puts s"
    using assms by (rule writeBody_puts_nil_fc)
  ultimately show ?thesis
    by blast
qed

text \<open>C9 at a 500 answer to a logging body with \<^verbatim>\<open>cacheAll = true\<close> and no failure cache.\<close>

theorem C9_nil_cache_never_puts_witness:
  "fc ((sampleWriter ''/v1/write/logging'' None)\<lparr>cacheAll := True\<rparr>) = None \<and>
   cacheAll ((sampleWriter ''/v1/write/logging'' None)\<lparr>cacheAll := True\<rparr>) \<and>
   puts (snd (writeBody (sampleEnv (answers 500 ''oops'')) sampleEndPoint
       ((sampleWriter ''/v1/write/logging'' None)\<lparr>cacheAll := True\<rparr>) sampleBody world0)) = [] \<and>
   puts (snd (snd (writePoints (sampleEnv (answers 500 ''oops'')) sampleEndPoint
       ((sampleWriter ''/v1/write/logging'' None)\<lparr>cacheAll := True\<rparr>) world0))) = [] \<and>
   last (logs (snd (writeBody (sampleEnv (answers 500 ''oops'')) sampleEndPoint
       ((sampleWriter ''/v1/write/logging'' None)\<lparr>cacheAll := True\<rparr>) sampleBody world0))) =
     SendFailed 2 ''/v1/write/logging'' False ErrDatawayInternal"
proof -
  let ?E = "sampleEnv (answers 500 ''oops'')"
  let ?W = "(sampleWriter ''/v1/write/logging'' None)\<lparr>cacheAll := True\<rparr>"
  have nil: "fc ?W = None"
    by (simp add: sampleWriter_def)
  have failed: "fst (writePointData ?E sampleEndPoint sampleBody (?W\<lparr>gzip := gzon sampleBody\<rparr>)
                  world0) = Some ErrDatawayInternal"
    by (simp add: write_defs sample_defs)
  show ?thesis
    using C9_nil_cache_never_puts
            [where env = ?E and ep = sampleEndPoint and b = sampleBody and s = world0, OF nil]
      nil failed
    by (simp add: sample_defs logf_def)
qed

text \<open>
  C10. When the category is in the routing table, the dynamic URL of the request changes
  nothing: the delivery is the same for every dynamic URL, the only request goes to the URL
  of the table with the bytes of the body (and is sent when \<^verbatim>\<open>http.NewRequest\<close> accepts that
  URL), and the callback of the dynamic URL is not called.
\<close>

theorem C10_static_route_wins:
  assumes "categoryURL ep (category w) = Some u"
  shows "writePointData env ep b (w\<lparr>dynamicURL := d\<rparr>) s = writePointData env ep b w s \<and>
         dtinfo (snd (writePointData env ep b w s)) = dtinfo s \<and>
         reqs (snd (writePointData env ep b w s)) =
           reqs s @ (case NewRequest env u of None \<Rightarrow> [buildRequest env w b u] | Some e \<Rightarrow> []) \<and>
         ReqURL (buildRequest env w b u) = u \<and>
         ReqBody (buildRequest env w b u) = buf b"
proof -
  have "buildRequest env (w\<lparr>dynamicURL := d\<rparr>) b u = buildRequest env w b u"
    by (simp add: buildRequest_def)
  moreover have "classify env (w\<lparr>dynamicURL := d\<rparr>) b u code rb s1 = classify env w b u code rb s1"
    for code rb s1
    by (simp add: classify_def Let_def)
  ultimately have "post env ep b (w\<lparr>dynamicURL := d\<rparr>) u s = post env ep b w u s"
    by (simp add: post_result cong: option.case_cong sum.case_cong)
  then show ?thesis
    using assms by (simp add: wpd_static post_reqs buildRequest_def)
qed

text \<open>C10 for a logging body with a dynamic URL, on the sample endpoint.\<close>

theorem C10_static_route_wins_witness:
  "categoryURL sampleEndPoint ''/v1/write/logging'' =
     Some ''https://gw.example/v1/write/logging?token=T1'' \<and>
   dynamicURL ((sampleWriter ''/v1/write/logging'' None)\<lparr>dynamicURL := ''http://dial.example/cb''\<rparr>)
     = ''http://dial.example/cb'' \<and>
   reqs (snd (writePointData (sampleEnv (answers 200 [])) sampleEndPoint sampleBody
     ((sampleWriter ''/v1/write/logging'' None)\<lparr>dynamicURL := ''http://dial.example/cb''\<rparr>)
     world0)) = [loggingRequest] \<and>
   dtinfo (snd (writePointData (sampleEnv (answers 200 [])) sampleEndPoint sampleBody
     ((sampleWriter ''/v1/write/logging'' None)\<lparr>dynamicURL := ''http://dial.example/cb''\<rparr>)
     world0)) = []"
proof -
  let ?W = "(sampleWriter ''/v1/write/logging'' None)\<lparr>dynamicURL := ''http://dial.example/cb''\<rparr>"
  have route: "categoryURL sampleEndPoint (category ?W) =
                 Some ''https://gw.example/v1/write/logging?token=T1''"
    by (simp add: sample_defs)
  show ?thesis
    using C10_static_route_wins
            [where env = "sampleEnv (answers 200 [])" and b = sampleBody and s = world0
               and d = "''http://dial.example/cb''", OF route] route
    by (simp add: buildRequest_def sample_defs)
qed

end
